theory Spec2Isabelle
  imports Main "HOL-Library.Word"
begin

unbundle bit_operations_syntax

section \<open>Python values, exceptions and model instances\<close>

text \<open>
  The module \<open>flexselect/__init__.py\<close> is glue over Django. Exceptions that the module
  catches, raises or lets through are values of \<open>error\<close>; a computation that may raise
  has a result of type \<open>error + 'a\<close>, with \<open>Inl\<close> for the exception.
\<close>

datatype error =
    AttributeError
  | ObjectDoesNotExist
  | ValidationError
  | ValueError
  | KeyError
  | TypeError
  | NotImplementedError
  | NoReverseMatch
  | IndexError
  | OtherError string

datatype pyval = PNone | PInt int | PStr string | PBool bool | PObj nat

text \<open>
  Reading an attribute of an object gives a value or raises: a related-object
  descriptor raises \<open>ObjectDoesNotExist\<close> when the related record is missing, and any
  property may raise something else. The table \<open>attrs\<close> of a model instance lists every
  name that \<open>getattr\<close> finds on it; a name that is not listed raises \<open>AttributeError\<close>.
\<close>

datatype attr = Value pyval | Raises error

record model_instance =
  pk :: pyval
  label :: string
  attrs :: "(string \<times> attr) list"

type_synonym choice = "pyval \<times> string"

section \<open>The choice builder\<close>

definition EMPTY_CHOICE :: choice where
  "EMPTY_CHOICE = (PStr '''', ''---------'')"

text \<open>\<open>smart_unicode(o)\<close>: the human-readable label of a record.\<close>

definition smart_unicode :: "model_instance \<Rightarrow> string" where
  "smart_unicode o' = label o'"

text \<open>\<open>itertools.chain(a, b)\<close>, as the sequence of the items it yields.\<close>

definition chain :: "'a list \<Rightarrow> 'a list \<Rightarrow> 'a list" where
  "chain a b = a @ b"

text \<open>The list comprehension \<open>[(o.pk, smart_unicode(o)) for o in queryset]\<close>.\<close>

fun pk_label_pairs :: "model_instance list \<Rightarrow> choice list" where
  "pk_label_pairs [] = []"
| "pk_label_pairs (o' # queryset) = (pk o', smart_unicode o') # pk_label_pairs queryset"

definition choices_from_queryset :: "model_instance list \<Rightarrow> choice list" where
  "choices_from_queryset queryset = chain [EMPTY_CHOICE] (pk_label_pairs queryset)"

section \<open>Requests, model classes and widgets\<close>

text \<open>
  \<open>request.method\<close>, the pairs yielded by \<open>request.POST.items()\<close> and the dictionary
  \<open>request.META\<close>.
\<close>

record http_request =
  http_method :: string
  POST :: "(string \<times> string) list"
  META :: "string \<rightharpoonup> string"

text \<open>
  A model field \<open>f\<close>: \<open>f.name\<close>, and \<open>f.formfield().to_python(s)\<close>, which returns the
  coerced value or raises (\<open>ValidationError\<close> for an invalid value; a field without a
  form representation raises \<open>AttributeError\<close>, \<open>formfield()\<close> being \<open>None\<close>).
\<close>

record model_field =
  name :: string
  to_python :: "string \<Rightarrow> error + pyval"

text \<open>
  A model class: \<open>model._meta.fields\<close> and the constructor \<open>model(**values)\<close>, which
  receives the keyword arguments as a dictionary.
\<close>

record model_class =
  meta_fields :: "model_field list"
  construct :: "(string \<rightharpoonup> pyval) \<Rightarrow> model_instance"

text \<open>The field a widget is attached to also knows its model: \<open>base_field.model\<close>.\<close>

record bound_field = model_field +
  model :: model_class

text \<open>
  The admin object: \<open>modeladmin.__class__.__name__\<close> and
  \<open>modeladmin.get_object(request, object_id)\<close>.
\<close>

record model_admin =
  class_name :: string
  get_object :: "http_request \<Rightarrow> int \<Rightarrow> error + model_instance option"

text \<open>The classes of the module and the Django classes they derive from.\<close>

datatype cls =
    FlexBaseWidget
  | FlexSelectWidget
  | FlexSelectMultipleWidget
  | Select
  | SelectMultiple
  | Widget
  | PyObject

text \<open>
  A widget object. \<open>widget_class\<close> is the class of this module it is an instance of (or
  that its class derives from); \<open>unique_name\<close>, \<open>trigger_fields\<close>, \<open>details\<close>,
  \<open>queryset\<close> and \<open>empty_choices_text\<close> are what that class binds (the defaults of
  \<open>FlexBaseWidget\<close> are given below); the rest are the attributes set by \<open>__init__\<close>
  and \<open>render\<close>.
\<close>

record widget =
  widget_class :: cls
  unique_name :: "string option"
  trigger_fields :: "string list"
  details :: "pyval \<Rightarrow> model_instance option \<Rightarrow> error + string"
  queryset :: "model_instance option \<Rightarrow> error + model_instance list"
  empty_choices_text :: "model_instance option \<Rightarrow> error + string"
  choice_function :: "(model_instance option \<Rightarrow> error + choice list) option"
  base_field :: bound_field
  modeladmin :: model_admin
  request :: http_request
  hashed_name :: string
  choices :: "choice list"

text \<open>The hooks as \<open>FlexBaseWidget\<close> defines them: each raises \<open>NotImplementedError\<close>.\<close>

definition FlexBaseWidget_details :: "pyval \<Rightarrow> model_instance option \<Rightarrow> error + string" where
  "FlexBaseWidget_details base_field_instance inst = Inl NotImplementedError"

definition FlexBaseWidget_queryset :: "model_instance option \<Rightarrow> error + model_instance list" where
  "FlexBaseWidget_queryset inst = Inl NotImplementedError"

definition FlexBaseWidget_empty_choices_text :: "model_instance option \<Rightarrow> error + string" where
  "FlexBaseWidget_empty_choices_text inst = Inl NotImplementedError"

section \<open>What the module takes from its host\<close>

text \<open>
  \<open>settings.SECRET_KEY\<close>; \<open>reverse(name)\<close>, which may raise \<open>NoReverseMatch\<close>; the
  builtin \<open>int\<close> on a string, \<open>None\<close> standing for its \<open>ValueError\<close> (which strings are
  integer literals differs between Python versions, so the parser is left open); the
  \<open>render\<close> method of the Django class found by \<open>super\<close>; and the attributes of the
  object \<open>None\<close> (\<open>__doc__\<close>, \<open>__class__\<close> and so on, a list that also differs between
  Python versions), as a table like that of a model instance.
\<close>

record host =
  SECRET_KEY :: string
  reverse :: "string \<Rightarrow> error + string"
  py_int :: "string \<Rightarrow> int option"
  parent_render ::
    "cls \<Rightarrow> widget \<Rightarrow> string \<Rightarrow> pyval \<Rightarrow> (string \<times> string) list option \<Rightarrow> error + string"
  none_attributes :: "(string \<times> attr) list"

section \<open>Choices and details from an instance\<close>

text \<open>
  \<open>getattr(instance, name)\<close>, where \<open>instance\<close> is a model instance or \<open>None\<close>: the
  entry of the object's table, \<open>AttributeError\<close> when the table has none.
\<close>

definition py_getattr :: "host \<Rightarrow> model_instance option \<Rightarrow> string \<Rightarrow> error + pyval" where
  "py_getattr h obj n =
     (case map_of (case obj of None \<Rightarrow> none_attributes h | Some i \<Rightarrow> attrs i) n of
        None \<Rightarrow> Inl AttributeError
      | Some (Raises e) \<Rightarrow> Inl e
      | Some (Value v) \<Rightarrow> Inr v)"

text \<open>
  The loop \<open>for trigger_field in widget.trigger_fields: getattr(instance, trigger_field)\<close>:
  it stops at the first read that raises.
\<close>

fun read_trigger_fields :: "host \<Rightarrow> model_instance option \<Rightarrow> string list \<Rightarrow> error + unit" where
  "read_trigger_fields h inst [] = Inr ()"
| "read_trigger_fields h inst (trigger_field # rest) =
     (case py_getattr h inst trigger_field of
        Inl e \<Rightarrow> Inl e
      | Inr v \<Rightarrow> read_trigger_fields h inst rest)"

text \<open>The clause \<open>except (ObjectDoesNotExist, AttributeError)\<close>.\<close>

definition caught_as_missing :: "error \<Rightarrow> bool" where
  "caught_as_missing e = (e = ObjectDoesNotExist \<or> e = AttributeError)"

definition choices_from_instance ::
  "host \<Rightarrow> model_instance option \<Rightarrow> widget \<Rightarrow> error + choice list" where
  "choices_from_instance h inst w =
     (case read_trigger_fields h inst (trigger_fields w) of
        Inl e \<Rightarrow>
          if caught_as_missing e
          then (case empty_choices_text w inst of
                  Inl e' \<Rightarrow> Inl e'
                | Inr t \<Rightarrow> Inr [(PStr '''', t)])
          else Inl e
      | Inr u \<Rightarrow>
          (case queryset w inst of
             Inl e \<Rightarrow> Inl e
           | Inr qs \<Rightarrow> Inr (choices_from_queryset qs)))"

definition details_from_instance ::
  "host \<Rightarrow> model_instance option \<Rightarrow> widget \<Rightarrow> error + string" where
  "details_from_instance h inst w =
     (case read_trigger_fields h inst (trigger_fields w) of
        Inl e \<Rightarrow> if caught_as_missing e then Inr '''' else Inl e
      | Inr u \<Rightarrow>
          (case py_getattr h inst (name (base_field w)) of
             Inl e \<Rightarrow> if caught_as_missing e then Inr '''' else Inl e
           | Inr related_instance \<Rightarrow> details w related_instance inst))"

section \<open>An instance from a POST request\<close>

text \<open>\<open>dict(pairs)\<close>: a later pair with the same key replaces an earlier one.\<close>

definition py_dict :: "('k \<times> 'v) list \<Rightarrow> ('k \<rightharpoonup> 'v)" where
  "py_dict pairs = fold (\<lambda>kv d. d(fst kv \<mapsto> snd kv)) pairs Map.empty"

text \<open>
  The loop over \<open>widget.base_field.model._meta.fields\<close>, threading the dictionary
  \<open>values\<close>. Only \<open>ValidationError\<close> is caught; any other exception leaves the loop.
\<close>

fun collect_values ::
  "model_field list \<Rightarrow> (string \<rightharpoonup> string) \<Rightarrow> (string \<rightharpoonup> pyval) \<Rightarrow> error + (string \<rightharpoonup> pyval)" where
  "collect_values [] items values = Inr values"
| "collect_values (f # fs) items values =
     (case items (name f) of
        None \<Rightarrow> collect_values fs items values
      | Some s \<Rightarrow>
          (case to_python f s of
             Inr v \<Rightarrow>
               if v \<noteq> PNone
               then collect_values fs items (values(name f \<mapsto> v))
               else collect_values fs items values
           | Inl e \<Rightarrow>
               if e = ValidationError
               then collect_values fs items values
               else Inl e))"

text \<open>Lines 79 to 88: the dictionary \<open>values\<close> when the loop is over.\<close>

definition request_values :: "http_request \<Rightarrow> widget \<Rightarrow> error + (string \<rightharpoonup> pyval)" where
  "request_values req w =
     collect_values (meta_fields (model (base_field w))) (py_dict (POST req)) Map.empty"

definition instance_from_request :: "http_request \<Rightarrow> widget \<Rightarrow> error + model_instance" where
  "instance_from_request req w =
     (case request_values req w of
        Inl e \<Rightarrow> Inl e
      | Inr values \<Rightarrow> Inr (construct (model (base_field w)) values))"

section \<open>String operations\<close>

text \<open>
  Text is modelled as ASCII, one \<open>char\<close> per character, so that \<open>.encode('utf-8')\<close>
  leaves it as it is.
\<close>

definition py_join :: "string \<Rightarrow> string list \<Rightarrow> string" where
  "py_join sep parts =
     (case parts of
        [] \<Rightarrow> []
      | p # ps \<Rightarrow> p @ concat (map (\<lambda>q. sep @ q) ps))"

definition encode_utf8 :: "string \<Rightarrow> string" where
  "encode_utf8 s = s"

text \<open>\<open>s.strip(c)\<close> for a single character \<open>c\<close>.\<close>

definition py_strip :: "char \<Rightarrow> string \<Rightarrow> string" where
  "py_strip c s = rev (dropWhile (\<lambda>x. x = c) (rev (dropWhile (\<lambda>x. x = c) s)))"

text \<open>\<open>s.split(c)\<close> for a single character \<open>c\<close>: never an empty list.\<close>

fun py_split :: "char \<Rightarrow> string \<Rightarrow> string list" where
  "py_split c [] = [[]]"
| "py_split c (x # xs) =
     (if x = c then [] # py_split c xs
      else (case py_split c xs of
              [] \<Rightarrow> [[x]]
            | seg # segs \<Rightarrow> (x # seg) # segs))"

text \<open>\<open>l.pop()\<close>, for its result: the last element, \<open>IndexError\<close> on an empty list.\<close>

definition py_pop :: "'a list \<Rightarrow> error + 'a" where
  "py_pop l = (if l = [] then Inl IndexError else Inr (last l))"

section \<open>SHA-1\<close>

text \<open>\<open>hashlib.sha1(bytes).hexdigest()\<close>, after FIPS 180.\<close>

type_synonym u32 = "32 word"

definition rotl :: "nat \<Rightarrow> u32 \<Rightarrow> u32" where
  "rotl n x = push_bit n x OR drop_bit (32 - n) x"

definition be_bytes :: "nat \<Rightarrow> nat \<Rightarrow> nat list" where
  "be_bytes k n = map (\<lambda>i. (n div 256 ^ (k - 1 - i)) mod 256) [0..<k]"

definition sha1_pad :: "nat list \<Rightarrow> nat list" where
  "sha1_pad m =
     m @ [128] @ replicate ((119 - length m mod 64) mod 64) 0 @ be_bytes 8 (8 * length m)"

fun be_words :: "nat list \<Rightarrow> u32 list" where
  "be_words (a # b # c # d # rest) =
     word_of_nat (((a * 256 + b) * 256 + c) * 256 + d) # be_words rest"
| "be_words _ = []"

fun chunks :: "nat \<Rightarrow> 'a list \<Rightarrow> 'a list list" where
  "chunks n xs = (if n = 0 \<or> xs = [] then [] else take n xs # chunks n (drop n xs))"

fun sha1_schedule :: "nat \<Rightarrow> u32 list \<Rightarrow> u32 list" where
  "sha1_schedule 0 w = w"
| "sha1_schedule (Suc k) w =
     (let i = length w in
      sha1_schedule k
        (w @ [rotl 1 (w ! (i - 3) XOR w ! (i - 8) XOR w ! (i - 14) XOR w ! (i - 16))]))"

type_synonym sha1_state = "u32 \<times> u32 \<times> u32 \<times> u32 \<times> u32"

definition sha1_round :: "nat \<Rightarrow> u32 \<Rightarrow> sha1_state \<Rightarrow> sha1_state" where
  "sha1_round i wi s =
     (case s of (a, b, c, d, e) \<Rightarrow>
        let f = (if i < 20 then (b AND c) OR (NOT b AND d)
                 else if i < 40 then b XOR c XOR d
                 else if i < 60 then (b AND c) OR (b AND d) OR (c AND d)
                 else b XOR c XOR d);
            k = (if i < 20 then 0x5A827999
                 else if i < 40 then 0x6ED9EBA1
                 else if i < 60 then 0x8F1BBCDC
                 else 0xCA62C1D6);
            temp = rotl 5 a + f + e + k + wi
        in (temp, a, rotl 30 b, c, d))"

fun sha1_rounds :: "nat \<Rightarrow> u32 list \<Rightarrow> sha1_state \<Rightarrow> sha1_state" where
  "sha1_rounds i [] s = s"
| "sha1_rounds i (wi # ws) s = sha1_rounds (Suc i) ws (sha1_round i wi s)"

definition sha1_block :: "sha1_state \<Rightarrow> nat list \<Rightarrow> sha1_state" where
  "sha1_block h block =
     (case h of (h0, h1, h2, h3, h4) \<Rightarrow>
        (case sha1_rounds 0 (sha1_schedule 64 (be_words block)) h of
           (a, b, c, d, e) \<Rightarrow> (h0 + a, h1 + b, h2 + c, h3 + d, h4 + e)))"

definition sha1 :: "nat list \<Rightarrow> sha1_state" where
  "sha1 m = foldl sha1_block (0x67452301, 0xEFCDAB89, 0x98BADCFE, 0x10325476, 0xC3D2E1F0)
              (chunks 64 (sha1_pad m))"

definition hex_digit :: "nat \<Rightarrow> char" where
  "hex_digit n = ''0123456789abcdef'' ! (n mod 16)"

definition hex_word :: "u32 \<Rightarrow> string" where
  "hex_word x = map (\<lambda>i. hex_digit (unat (drop_bit (4 * (7 - i)) x))) [0..<8]"

definition sha1_hexdigest :: "string \<Rightarrow> string" where
  "sha1_hexdigest s =
     (case sha1 (map of_char s) of
        (h0, h1, h2, h3, h4) \<Rightarrow>
          hex_word h0 @ hex_word h1 @ hex_word h2 @ hex_word h3 @ hex_word h4)"

section \<open>The widget identifier\<close>

text \<open>The string that is hashed: the three parts joined with no separator.\<close>

definition salted_string :: "host \<Rightarrow> widget \<Rightarrow> string" where
  "salted_string h self =
     encode_utf8
       (py_join '''' [SECRET_KEY h, name (base_field self), class_name (modeladmin self)])"

definition FlexBaseWidget_hashed_name :: "host \<Rightarrow> widget \<Rightarrow> string" where
  "FlexBaseWidget_hashed_name h self =
     (case unique_name self of
        Some n \<Rightarrow> n
      | None \<Rightarrow> ''_'' @ sha1_hexdigest (salted_string h self))"

section \<open>Resolving the instance\<close>

text \<open>The clause \<open>except ValueError: return None\<close>.\<close>

definition except_ValueError :: "error + 'a option \<Rightarrow> error + 'a option" where
  "except_ValueError r =
     (case r of
        Inl e \<Rightarrow> if e = ValueError then Inr None else Inl e
      | Inr x \<Rightarrow> Inr x)"

definition FlexBaseWidget_get_instance :: "host \<Rightarrow> widget \<Rightarrow> error + model_instance option" where
  "FlexBaseWidget_get_instance h self =
     (if http_method (request self) = ''POST''
      then (case instance_from_request (request self) self of
              Inl e \<Rightarrow> Inl e
            | Inr i \<Rightarrow> Inr (Some i))
      else except_ValueError
        (case META (request self) ''PATH_INFO'' of
           None \<Rightarrow> Inl KeyError
         | Some path_info \<Rightarrow>
             (case py_pop (py_split CHR ''/'' (py_strip CHR ''/'' path_info)) of
                Inl e \<Rightarrow> Inl e
              | Inr segment \<Rightarrow>
                  (case py_int h segment of
                     None \<Rightarrow> Inl ValueError
                   | Some object_id \<Rightarrow>
                       get_object (modeladmin self) (request self) object_id))))"

text \<open>
  The trailing segment of a path, read off the path itself: what stands after the
  last slash, once the slashes at the end are dropped. \<open>_get_instance\<close> computes it
  as \<open>path.strip('/').split('/').pop()\<close>; that the two agree is proved below.
\<close>

definition trailing_segment :: "string \<Rightarrow> string" where
  "trailing_segment path =
     rev (takeWhile (\<lambda>x. x \<noteq> CHR ''/'') (dropWhile (\<lambda>x. x = CHR ''/'') (rev path)))"

section \<open>The script block\<close>

text \<open>
  \<open>json.dumps\<close> of a string (a character outside space to tilde is written
  \<open>\uXXXX\<close>), of a list of strings, and of the dictionary built by \<open>_build_js\<close>, its
  keys in the order written.
\<close>

definition json_escape :: "char \<Rightarrow> string" where
  "json_escape c =
     (if c = CHR 0x22 then [CHR 0x5C, CHR 0x22]
      else if c = CHR 0x5C then [CHR 0x5C, CHR 0x5C]
      else if c = CHR 0x0A then [CHR 0x5C, CHR ''n'']
      else if c = CHR 0x0D then [CHR 0x5C, CHR ''r'']
      else if c = CHR 0x09 then [CHR 0x5C, CHR ''t'']
      else if c = CHR 0x08 then [CHR 0x5C, CHR ''b'']
      else if c = CHR 0x0C then [CHR 0x5C, CHR ''f'']
      else if 32 \<le> (of_char c :: nat) \<and> (of_char c :: nat) \<le> 126 then [c]
      else [CHR 0x5C, CHR ''u'', CHR ''0'', CHR ''0'',
            hex_digit ((of_char c :: nat) div 16), hex_digit (of_char c :: nat)])"

definition json_string :: "string \<Rightarrow> string" where
  "json_string s = [CHR 0x22] @ concat (map json_escape s) @ [CHR 0x22]"

definition json_list :: "string list \<Rightarrow> string" where
  "json_list xs = ''['' @ py_join '', '' xs @ '']''"

definition json_dumps_fields :: "string \<Rightarrow> string list \<Rightarrow> string" where
  "json_dumps_fields base_name triggers =
     ''{'' @ json_string ''base_field'' @ '': '' @ json_string base_name @ '', ''
       @ json_string ''trigger_fields'' @ '': '' @ json_list (map json_string triggers) @ ''}''"

definition FlexBaseWidget_build_js :: "host \<Rightarrow> widget \<Rightarrow> error + string" where
  "FlexBaseWidget_build_js h self =
     (case reverse h ''flexselect_field_changed'' of
        Inl e \<Rightarrow> Inl e
      | Inr url \<Rightarrow>
          Inr ([CHR 0x0A] @ ''        <script>''
             @ [CHR 0x0A] @ ''            var flexselect = flexselect || {};''
             @ [CHR 0x0A] @ ''            flexselect.fields = flexselect.fields || {};''
             @ [CHR 0x0A] @ ''            flexselect.url = '' @ url @ '';''
             @ [CHR 0x0A] @ ''            flexselect.fields.'' @ hashed_name self @ '' = ''
                          @ json_dumps_fields (name (base_field self)) (trigger_fields self) @ '';''
             @ [CHR 0x0A] @ ''        </script>''))"

section \<open>Classes, \<open>super\<close> and rendering\<close>

text \<open>The method resolution order of each class.\<close>

fun mro :: "cls \<Rightarrow> cls list" where
  "mro FlexSelectWidget = [FlexSelectWidget, FlexBaseWidget, Select, Widget, PyObject]"
| "mro FlexSelectMultipleWidget =
     [FlexSelectMultipleWidget, FlexBaseWidget, SelectMultiple, Select, Widget, PyObject]"
| "mro FlexBaseWidget = [FlexBaseWidget, PyObject]"
| "mro SelectMultiple = [SelectMultiple, Select, Widget, PyObject]"
| "mro Select = [Select, Widget, PyObject]"
| "mro Widget = [Widget, PyObject]"
| "mro PyObject = [PyObject]"

text \<open>The names that the body of each class binds.\<close>

fun class_body :: "cls \<Rightarrow> string list" where
  "class_body FlexBaseWidget =
     [''instances'', ''unique_name'', ''Media'', ''__init__'', ''_hashed_name'',
      ''_get_instance'', ''_build_js'', ''render'', ''trigger_fields'', ''details'',
      ''queryset'', ''empty_choices_text'']"
| "class_body FlexSelectWidget = []"
| "class_body FlexSelectMultipleWidget = [''__init__'']"
| "class_body Select = [''__init__'', ''render'']"
| "class_body SelectMultiple = [''render'']"
| "class_body Widget = [''__init__'', ''render'']"
| "class_body PyObject = [''__init__'']"

text \<open>Attribute lookup on a class: the first class of its order that binds the name.\<close>

definition class_attribute_owner :: "cls \<Rightarrow> string \<Rightarrow> cls option" where
  "class_attribute_owner c attribute = find (\<lambda>k. attribute \<in> set (class_body k)) (mro c)"

text \<open>A reference to a class object, or to an instance of a class.\<close>

datatype pyref = ClassRef cls | InstanceRef cls

text \<open>
  \<open>super(type, obj)\<close>: the first argument must be a class, and the second an instance
  or a subclass of it; the result searches the classes after \<open>type\<close> in the order of
  \<open>obj\<close>. Otherwise \<open>TypeError\<close>.
\<close>

definition py_super :: "pyref \<Rightarrow> pyref \<Rightarrow> error + cls list" where
  "py_super type_arg obj =
     (case type_arg of
        InstanceRef c \<Rightarrow> Inl TypeError
      | ClassRef t \<Rightarrow>
          (let order = mro (case obj of ClassRef c \<Rightarrow> c | InstanceRef c \<Rightarrow> c)
           in if t \<in> set order
              then Inr (tl (dropWhile (\<lambda>k. k \<noteq> t) order))
              else Inl TypeError))"

text \<open>Calling \<open>render\<close> on the result of \<open>super\<close>: the Django renderer it finds.\<close>

definition super_render ::
  "host \<Rightarrow> cls list \<Rightarrow> widget \<Rightarrow> string \<Rightarrow> pyval \<Rightarrow> (string \<times> string) list option \<Rightarrow> error + string" where
  "super_render h search self nm value html_attrs =
     (case find (\<lambda>k. k \<in> set [SelectMultiple, Select, Widget]) search of
        None \<Rightarrow> Inl AttributeError
      | Some k \<Rightarrow> parent_render h k self nm value html_attrs)"

datatype safe_text = SafeText string

definition mark_safe :: "string \<Rightarrow> safe_text" where
  "mark_safe s = SafeText s"

text \<open>
  Lines 177 to 186: the elements of the list are evaluated in order, the first being
  \<open>super(self, FlexBaseWidget).render(...)\<close>, with \<open>self\<close> as first argument of
  \<open>super\<close>.
\<close>

definition render_markup ::
  "host \<Rightarrow> widget \<Rightarrow> model_instance option \<Rightarrow> string \<Rightarrow> pyval \<Rightarrow> (string \<times> string) list option
     \<Rightarrow> error + safe_text" where
  "render_markup h self inst nm value html_attrs =
     (case py_super (InstanceRef (widget_class self)) (ClassRef FlexBaseWidget) of
        Inl e \<Rightarrow> Inl e
      | Inr search \<Rightarrow>
          (case super_render h search self nm value html_attrs of
             Inl e \<Rightarrow> Inl e
           | Inr control \<Rightarrow>
               (case FlexBaseWidget_build_js h self of
                  Inl e \<Rightarrow> Inl e
                | Inr js \<Rightarrow>
                    (case details_from_instance h inst self of
                       Inl e \<Rightarrow> Inl e
                     | Inr d \<Rightarrow>
                         Inr (mark_safe (py_join ''''
                           [control, js,
                            ''<span class='' @ [CHR 0x22] @ ''flexselect_details'' @ [CHR 0x22] @ ''>'',
                            d, ''</span>'']))))))"

text \<open>\<open>render\<close>: the result, and \<open>self\<close> with \<open>self.choices\<close> as the call leaves it.\<close>

definition FlexBaseWidget_render ::
  "host \<Rightarrow> widget \<Rightarrow> string \<Rightarrow> pyval \<Rightarrow> (string \<times> string) list option
     \<Rightarrow> (error + safe_text) \<times> widget" where
  "FlexBaseWidget_render h self nm value html_attrs =
     (case FlexBaseWidget_get_instance h self of
        Inl e \<Rightarrow> (Inl e, self)
      | Inr inst \<Rightarrow>
          (case (case choice_function self of
                   Some f \<Rightarrow> f inst
                 | None \<Rightarrow> choices_from_instance h inst self) of
             Inl e \<Rightarrow> (Inl e, self)
           | Inr cs \<Rightarrow>
               (render_markup h (self\<lparr>choices := cs\<rparr>) inst nm value html_attrs,
                self\<lparr>choices := cs\<rparr>)))"

section \<open>Construction and the registry\<close>

text \<open>
  The state of the process: the widget objects by address, the next free address, and
  the content of the one dictionary that line 93 creates and binds to the name
  \<open>instances\<close> in the body of \<open>FlexBaseWidget\<close>; it maps identifiers to addresses.
\<close>

record world =
  heap :: "nat \<rightharpoonup> widget"
  next_address :: nat
  instances :: "string \<rightharpoonup> nat"

text \<open>
  \<open>C.instances\<close> for a class \<open>C\<close>: the dictionary, when attribute lookup on \<open>C\<close> finds the
  binding in \<open>FlexBaseWidget\<close>, the only class that binds the name.
\<close>

definition class_instances :: "world \<Rightarrow> cls \<Rightarrow> error + (string \<rightharpoonup> nat)" where
  "class_instances w c =
     (case class_attribute_owner c ''instances'' of
        Some FlexBaseWidget \<Rightarrow> Inr (instances w)
      | _ \<Rightarrow> Inl AttributeError)"

text \<open>Lines 108 to 113: the attributes that \<open>__init__\<close> sets before it registers.\<close>

definition init_attributes ::
  "host \<Rightarrow> widget \<Rightarrow> bound_field \<Rightarrow> model_admin \<Rightarrow> http_request
     \<Rightarrow> (model_instance option \<Rightarrow> error + choice list) option \<Rightarrow> widget" where
  "init_attributes h self bf ma req cf =
     (let self1 = self\<lparr>choice_function := cf, base_field := bf, modeladmin := ma, request := req\<rparr>
      in self1\<lparr>hashed_name := FlexBaseWidget_hashed_name h self1\<rparr>)"

text \<open>
  \<open>FlexBaseWidget.__init__\<close> on the new object \<open>self\<close>, which is given with what its
  class binds and is stored at the next free address. Line 114 stores it in
  \<open>FlexSelectWidget.instances\<close>; line 115 runs the initialiser of the Django class,
  which sets \<open>self.choices\<close> to the empty list.
\<close>

definition FlexBaseWidget_init ::
  "host \<Rightarrow> world \<Rightarrow> widget \<Rightarrow> bound_field \<Rightarrow> model_admin \<Rightarrow> http_request
     \<Rightarrow> (model_instance option \<Rightarrow> error + choice list) option \<Rightarrow> error + nat \<times> world" where
  "FlexBaseWidget_init h w self bf ma req cf =
     (let address = next_address w;
          self2 = init_attributes h self bf ma req cf
      in case class_instances w FlexSelectWidget of
           Inl e \<Rightarrow> Inl e
         | Inr registry \<Rightarrow>
             Inr (address,
                  w\<lparr>heap := (heap w)(address \<mapsto> self2\<lparr>choices := []\<rparr>),
                    next_address := Suc address,
                    instances := registry(hashed_name self2 \<mapsto> address)\<rparr>))"

definition FlexSelectMultipleWidget_init ::
  "host \<Rightarrow> world \<Rightarrow> widget \<Rightarrow> bound_field \<Rightarrow> model_admin \<Rightarrow> http_request
     \<Rightarrow> (model_instance option \<Rightarrow> error + choice list) option \<Rightarrow> error + nat \<times> world" where
  "FlexSelectMultipleWidget_init h w self bf ma req cf = FlexBaseWidget_init h w self bf ma req cf"

text \<open>Instantiating a class of the module: the \<open>__init__\<close> that its order finds first.\<close>

definition new_widget ::
  "host \<Rightarrow> world \<Rightarrow> widget \<Rightarrow> bound_field \<Rightarrow> model_admin \<Rightarrow> http_request
     \<Rightarrow> (model_instance option \<Rightarrow> error + choice list) option \<Rightarrow> error + nat \<times> world" where
  "new_widget h w self bf ma req cf =
     (case class_attribute_owner (widget_class self) ''__init__'' of
        Some FlexSelectMultipleWidget \<Rightarrow> FlexSelectMultipleWidget_init h w self bf ma req cf
      | Some FlexBaseWidget \<Rightarrow> FlexBaseWidget_init h w self bf ma req cf
      | _ \<Rightarrow> Inl TypeError)"

text \<open>The operations of the module that change the state, and runs of them.\<close>

datatype operation =
    New widget bound_field model_admin http_request
      "(model_instance option \<Rightarrow> error + choice list) option"
  | Render nat string pyval "(string \<times> string) list option"

fun step :: "host \<Rightarrow> world \<Rightarrow> operation \<Rightarrow> world" where
  "step h w (New self bf ma req cf) =
     (case new_widget h w self bf ma req cf of
        Inl e \<Rightarrow> w
      | Inr (address, w') \<Rightarrow> w')"
| "step h w (Render address nm value html_attrs) =
     (case heap w address of
        None \<Rightarrow> w
      | Some self \<Rightarrow>
          w\<lparr>heap := (heap w)(address \<mapsto> snd (FlexBaseWidget_render h self nm value html_attrs))\<rparr>)"

fun run :: "host \<Rightarrow> world \<Rightarrow> operation list \<Rightarrow> world" where
  "run h w [] = w"
| "run h w (op # ops) = run h (step h w op) ops"

text \<open>The identifier under which an operation registers a widget, if it constructs one.\<close>

fun identifier_of :: "host \<Rightarrow> operation \<Rightarrow> string option" where
  "identifier_of h (New self bf ma req cf) =
     Some (hashed_name (init_attributes h self bf ma req cf))"
| "identifier_of h (Render address nm value html_attrs) = None"

section \<open>An example site\<close>

text \<open>
  A model \<open>Case\<close> with its automatic \<open>id\<close>, a related \<open>client\<close>, a related \<open>contact\<close>
  and an integer \<open>count\<close> that defaults to 0; its admin; and a widget class for the
  field \<open>contact\<close> whose choices depend on \<open>client\<close>. The theorems below are
  instantiated on it.
\<close>

definition decimal_literal :: "string \<Rightarrow> int option" where
  "decimal_literal s =
     (if s \<noteq> [] \<and> list_all (\<lambda>c. 48 \<le> (of_char c :: nat) \<and> (of_char c :: nat) \<le> 57) s
      then Some (foldl (\<lambda>a c. 10 * a + int (of_char c - 48)) 0 s)
      else None)"

definition related_to_python :: "string \<Rightarrow> error + pyval" where
  "related_to_python s =
     (if s = [] then Inr PNone
      else (case decimal_literal s of
              Some n \<Rightarrow> Inr (PObj (nat n))
            | None \<Rightarrow> Inl ValidationError))"

definition integer_to_python :: "string \<Rightarrow> error + pyval" where
  "integer_to_python s =
     (if s = [] then Inr PNone
      else (case decimal_literal s of
              Some n \<Rightarrow> Inr (PInt n)
            | None \<Rightarrow> Inl ValidationError))"

text \<open>
  The automatic primary key has no form representation: \<open>formfield()\<close> returns \<open>None\<close>,
  and \<open>.to_python\<close> on it raises \<open>AttributeError\<close>.
\<close>

definition auto_field_to_python :: "string \<Rightarrow> error + pyval" where
  "auto_field_to_python s = Inl AttributeError"

definition example_fields :: "model_field list" where
  "example_fields =
     [\<lparr>name = ''id'', to_python = auto_field_to_python\<rparr>,
      \<lparr>name = ''client'', to_python = related_to_python\<rparr>,
      \<lparr>name = ''contact'', to_python = related_to_python\<rparr>,
      \<lparr>name = ''count'', to_python = integer_to_python\<rparr>]"

definition example_construct :: "(string \<rightharpoonup> pyval) \<Rightarrow> model_instance" where
  "example_construct values =
     \<lparr>pk = PNone, label = ''Case object'',
      attrs =
        [(''client'', case values ''client'' of None \<Rightarrow> Raises ObjectDoesNotExist | Some v \<Rightarrow> Value v),
         (''contact'', case values ''contact'' of None \<Rightarrow> Value PNone | Some v \<Rightarrow> Value v),
         (''count'', case values ''count'' of None \<Rightarrow> Value (PInt 0) | Some v \<Rightarrow> Value v)]\<rparr>"

definition example_model :: model_class where
  "example_model = \<lparr>meta_fields = example_fields, construct = example_construct\<rparr>"

definition example_base_field :: bound_field where
  "example_base_field =
     \<lparr>name = ''contact'', to_python = related_to_python, model = example_model\<rparr>"

definition example_case :: model_instance where
  "example_case =
     \<lparr>pk = PInt 12, label = ''Case 12'',
      attrs = [(''client'', Value (PObj 3)), (''contact'', Value (PObj 5)),
               (''count'', Value (PInt 2))]\<rparr>"

definition example_admin :: model_admin where
  "example_admin =
     \<lparr>class_name = ''CaseAdmin'',
      get_object = (\<lambda>req object_id. if object_id = 12 then Inr (Some example_case) else Inr None)\<rparr>"

definition example_get :: "string \<Rightarrow> http_request" where
  "example_get path_info =
     \<lparr>http_method = ''GET'', POST = [], META = [''PATH_INFO'' \<mapsto> path_info]\<rparr>"

definition example_post :: "(string \<times> string) list \<Rightarrow> http_request" where
  "example_post pairs =
     \<lparr>http_method = ''POST'', POST = pairs,
      META = [''PATH_INFO'' \<mapsto> ''/admin/cases/case/add/'']\<rparr>"

text \<open>The attributes of \<open>None\<close> in Python 3.11; \<open>None.__doc__\<close> is \<open>None\<close>.\<close>

definition example_none_attributes :: "(string \<times> attr) list" where
  "example_none_attributes =
     (''__doc__'', Value PNone) #
     map (\<lambda>n. (n, Value (PObj 0)))
       [''__bool__'', ''__class__'', ''__delattr__'', ''__dir__'', ''__eq__'', ''__format__'',
        ''__ge__'', ''__getattribute__'', ''__getstate__'', ''__gt__'', ''__hash__'',
        ''__init__'', ''__init_subclass__'', ''__le__'', ''__lt__'', ''__ne__'', ''__new__'',
        ''__reduce__'', ''__reduce_ex__'', ''__repr__'', ''__setattr__'', ''__sizeof__'',
        ''__str__'', ''__subclasshook__'']"

definition example_host :: host where
  "example_host =
     \<lparr>SECRET_KEY = ''not-so-secret'',
      reverse = (\<lambda>n. if n = ''flexselect_field_changed''
                     then Inr ''/flexselect/field_changed'' else Inl NoReverseMatch),
      py_int = decimal_literal,
      parent_render = (\<lambda>k self nm value html_attrs. Inr (''<select name='' @ nm @ ''></select>'')),
      none_attributes = example_none_attributes\<rparr>"

text \<open>
  What a subclass of \<open>FlexSelectWidget\<close> for the field binds, as the object that
  \<open>__init__\<close> receives.
\<close>

definition example_class :: widget where
  "example_class =
     \<lparr>widget_class = FlexSelectWidget,
      unique_name = None,
      trigger_fields = [''client''],
      details = (\<lambda>related inst. Inr ''<div>contact</div>''),
      queryset = (\<lambda>inst. Inr []),
      empty_choices_text = (\<lambda>inst. Inr ''Please update the client field''),
      choice_function = None,
      base_field = example_base_field,
      modeladmin = example_admin,
      request = example_get [],
      hashed_name = [],
      choices = []\<rparr>"

definition example_widget :: "http_request \<Rightarrow> widget" where
  "example_widget req =
     init_attributes example_host example_class example_base_field example_admin req None"

definition empty_world :: world where
  "empty_world = \<lparr>heap = Map.empty, next_address = 0, instances = Map.empty\<rparr>"

section \<open>Properties of the choice builder\<close>

lemma pk_label_pairs_map:
  "pk_label_pairs qs = map (\<lambda>r. (pk r, label r)) qs"
  by (induction qs) (simp_all add: smart_unicode_def)

text \<open>
  Claim C2. For every queryset, the empty one included, \<open>choices_from_queryset\<close> yields
  the sentinel pair \<open>('', '---------')\<close> first, followed by exactly one
  (primary key, label) pair per record, in the order of the queryset; the empty
  queryset yields the sentinel alone.
\<close>

theorem choices_from_queryset_sentinel_then_records:
  "hd (choices_from_queryset qs) = (PStr '''', ''---------'')
   \<and> tl (choices_from_queryset qs) = map (\<lambda>r. (pk r, label r)) qs
   \<and> length (choices_from_queryset qs) = Suc (length qs)
   \<and> choices_from_queryset [] = [(PStr '''', ''---------'')]"
  by (simp add: choices_from_queryset_def chain_def EMPTY_CHOICE_def pk_label_pairs_map)

section \<open>Facts about the example site\<close>

lemma example_widget_simps:
  "trigger_fields (example_widget req) = [''client'']"
  "empty_choices_text (example_widget req) = (\<lambda>inst. Inr ''Please update the client field'')"
  "queryset (example_widget req) = (\<lambda>inst. Inr [])"
  "unique_name (example_widget req) = None"
  "choice_function (example_widget req) = None"
  "request (example_widget req) = req"
  "base_field (example_widget req) = example_base_field"
  "modeladmin (example_widget req) = example_admin"
  "widget_class (example_widget req) = FlexSelectWidget"
  by (simp_all add: example_widget_def init_attributes_def example_class_def Let_def)

section \<open>Degrading when the context is incomplete\<close>

lemma read_trigger_fields_append:
  "list_all (\<lambda>g. \<exists>v. py_getattr h inst g = Inr v) pre \<Longrightarrow>
   read_trigger_fields h inst (pre @ rest) = read_trigger_fields h inst rest"
  by (induction pre) auto

lemma read_trigger_fields_first_failure:
  assumes "list_all (\<lambda>g. \<exists>v. py_getattr h inst g = Inr v) pre"
      and "py_getattr h inst f = Inl e"
  shows "read_trigger_fields h inst (pre @ f # post) = Inl e"
  using assms by (simp add: read_trigger_fields_append)

lemma read_trigger_fields_all_read:
  "list_all (\<lambda>g. \<exists>v. py_getattr h inst g = Inr v) tfs \<Longrightarrow>
   read_trigger_fields h inst tfs = Inr ()"
  using read_trigger_fields_append [of h inst tfs "[]"] by simp

lemma example_getattr:
  "py_getattr example_host None ''client'' = Inl AttributeError"
  "py_getattr example_host None ''__doc__'' = Inr PNone"
  "py_getattr example_host (Some (example_construct Map.empty)) ''client'' = Inl ObjectDoesNotExist"
  "py_getattr example_host (Some (example_construct Map.empty)) ''count'' = Inr (PInt 0)"
  by (simp_all add: py_getattr_def example_host_def example_none_attributes_def
        example_construct_def)

text \<open>
  Claim C3 does not hold of the code. The two functions test nothing but the reads
  \<open>getattr(instance, trigger_field)\<close>: when the first read that raises raises
  \<open>AttributeError\<close> or \<open>ObjectDoesNotExist\<close>, \<open>choices_from_instance\<close> returns the
  single choice \<open>[('', empty_choices_text(instance))]\<close> (raising only what
  \<open>empty_choices_text\<close> raises) and \<open>details_from_instance\<close> returns the empty string.
  But when the instance is \<open>None\<close> and no read raises, as for a widget without trigger
  fields (the value of \<open>trigger_fields\<close> in \<open>FlexBaseWidget\<close>), \<open>choices_from_instance\<close>
  returns the choices of \<open>queryset(None)\<close>, which begin with \<open>('', '---------')\<close>, and
  not the choice made of \<open>empty_choices_text(None)\<close>.
\<close>

theorem degrade_only_when_a_read_raises:
  "(trigger_fields w = pre @ f # post
      \<and> list_all (\<lambda>g. \<exists>v. py_getattr h inst g = Inr v) pre
      \<and> py_getattr h inst f = Inl e
      \<and> (e = AttributeError \<or> e = ObjectDoesNotExist)
    \<longrightarrow> choices_from_instance h inst w =
          (case empty_choices_text w inst of
             Inl e' \<Rightarrow> Inl e'
           | Inr t \<Rightarrow> Inr [(PStr '''', t)])
        \<and> details_from_instance h inst w = Inr '''')
   \<and> (list_all (\<lambda>g. \<exists>v. py_getattr h None g = Inr v) (trigger_fields w)
    \<longrightarrow> choices_from_instance h None w =
          (case queryset w None of
             Inl e' \<Rightarrow> Inl e'
           | Inr qs \<Rightarrow> Inr ((PStr '''', ''---------'') # map (\<lambda>r. (pk r, label r)) qs))
        \<and> (\<forall>t. t \<noteq> ''---------'' \<longrightarrow> choices_from_instance h None w \<noteq> Inr [(PStr '''', t)]))"
proof (intro conjI impI)
  assume a: "trigger_fields w = pre @ f # post
      \<and> list_all (\<lambda>g. \<exists>v. py_getattr h inst g = Inr v) pre
      \<and> py_getattr h inst f = Inl e
      \<and> (e = AttributeError \<or> e = ObjectDoesNotExist)"
  then have r: "read_trigger_fields h inst (trigger_fields w) = Inl e"
    by (simp add: read_trigger_fields_first_failure)
  from a have c: "caught_as_missing e"
    by (auto simp: caught_as_missing_def)
  show "choices_from_instance h inst w =
          (case empty_choices_text w inst of
             Inl e' \<Rightarrow> Inl e'
           | Inr t \<Rightarrow> Inr [(PStr '''', t)])"
    using r c by (simp add: choices_from_instance_def)
  show "details_from_instance h inst w = Inr ''''"
    using r c by (simp add: details_from_instance_def)
next
  assume "list_all (\<lambda>g. \<exists>v. py_getattr h None g = Inr v) (trigger_fields w)"
  then have r: "read_trigger_fields h None (trigger_fields w) = Inr ()"
    by (rule read_trigger_fields_all_read)
  show q: "choices_from_instance h None w =
          (case queryset w None of
             Inl e' \<Rightarrow> Inl e'
           | Inr qs \<Rightarrow> Inr ((PStr '''', ''---------'') # map (\<lambda>r. (pk r, label r)) qs))"
    using r
    by (simp add: choices_from_instance_def choices_from_queryset_def chain_def EMPTY_CHOICE_def
          pk_label_pairs_map split: sum.splits)
  show "\<forall>t. t \<noteq> ''---------'' \<longrightarrow> choices_from_instance h None w \<noteq> Inr [(PStr '''', t)]"
    by (auto simp: q split: sum.splits)
qed

text \<open>
  On the example site. The add page (no instance) and an unsaved case without client,
  for the widget whose trigger field is \<open>client\<close>: both degrade. The same widget
  without trigger fields, on the add page: the choices are those of \<open>queryset(None)\<close>,
  not the text \<open>Please update the client field\<close>.
\<close>

theorem degrade_only_when_a_read_raises_witness:
  "choices_from_instance example_host None (example_widget (example_get ''/admin/cases/case/add/''))
     = Inr [(PStr '''', ''Please update the client field'')]
   \<and> details_from_instance example_host None (example_widget (example_get ''/admin/cases/case/add/''))
     = Inr ''''
   \<and> choices_from_instance example_host (Some (example_construct Map.empty))
         ((example_widget (example_post []))\<lparr>trigger_fields := [''count'', ''client'']\<rparr>)
     = Inr [(PStr '''', ''Please update the client field'')]
   \<and> empty_choices_text
         ((example_widget (example_get ''/admin/cases/case/add/''))\<lparr>trigger_fields := []\<rparr>) None
     = Inr ''Please update the client field''
   \<and> choices_from_instance example_host None
         ((example_widget (example_get ''/admin/cases/case/add/''))\<lparr>trigger_fields := []\<rparr>)
     = Inr [(PStr '''', ''---------'')]
   \<and> choices_from_instance example_host None
         ((example_widget (example_get ''/admin/cases/case/add/''))\<lparr>trigger_fields := []\<rparr>)
     \<noteq> Inr [(PStr '''', ''Please update the client field'')]"
proof -
  let ?w = "example_widget (example_get ''/admin/cases/case/add/'')"
  let ?w2 = "(example_widget (example_post []))\<lparr>trigger_fields := [''count'', ''client'']\<rparr>"
  let ?w3 = "(example_widget (example_get ''/admin/cases/case/add/''))\<lparr>trigger_fields := []\<rparr>"
  let ?i = "Some (example_construct Map.empty)"
  have a: "choices_from_instance example_host None ?w = Inr [(PStr '''', ''Please update the client field'')]
         \<and> details_from_instance example_host None ?w = Inr ''''"
    using degrade_only_when_a_read_raises
            [of ?w "[]" "''client''" "[]" example_host None AttributeError]
    by (simp add: example_widget_simps example_getattr)
  have b: "choices_from_instance example_host ?i ?w2 = Inr [(PStr '''', ''Please update the client field'')]"
    using degrade_only_when_a_read_raises
            [of ?w2 "[''count'']" "''client''" "[]" example_host ?i ObjectDoesNotExist]
    by (simp add: example_widget_simps example_getattr)
  have c: "choices_from_instance example_host None ?w3 = Inr [(PStr '''', ''---------'')]
         \<and> choices_from_instance example_host None ?w3 \<noteq> Inr [(PStr '''', ''Please update the client field'')]"
    using degrade_only_when_a_read_raises [of ?w3 "[]" "[]" "[]" example_host None AttributeError]
    by (simp add: example_widget_simps)
  show ?thesis
    using a b c by (simp add: example_widget_simps)
qed

section \<open>Rendering\<close>

lemma py_super_instance_first: "py_super (InstanceRef c) obj = Inl TypeError"
  by (simp add: py_super_def)

text \<open>With the arguments the other way round, \<open>super\<close> finds the Django classes.\<close>

lemma py_super_class_first:
  "py_super (ClassRef FlexBaseWidget) (InstanceRef FlexSelectWidget) = Inr [Select, Widget, PyObject]"
  by (simp add: py_super_def)

text \<open>
  Claim C1 does not hold of the code: \<open>render\<close> never returns markup. Whatever the
  widget, the instance and the arguments, the first element of the list to be joined,
  \<open>super(self, FlexBaseWidget).render(...)\<close>, raises \<open>TypeError\<close>, \<open>self\<close> not being a
  class; so every call of \<open>render\<close> ends in an exception.
\<close>

theorem render_raises_TypeError:
  "render_markup h self inst nm value html_attrs = Inl TypeError
   \<and> (\<exists>e. fst (FlexBaseWidget_render h self nm value html_attrs) = Inl e)"
  by (simp add: render_markup_def py_super_instance_first FlexBaseWidget_render_def
        split: sum.splits option.splits)

section \<open>The identifier as a function of secret, field name and admin class name\<close>

text \<open>
  Claim C6. Without an override name, the identifier is determined by the site secret,
  the name of the base field and the class name of the admin: two widgets that agree
  on the three have the same identifier. With an override name, the identifier is that
  name. The identifier that \<open>__init__\<close> stores is given by the same rule.
\<close>

theorem hashed_name_function_of_triple:
  "(unique_name w1 = None \<and> unique_name w2 = None
      \<and> SECRET_KEY h1 = SECRET_KEY h2
      \<and> name (base_field w1) = name (base_field w2)
      \<and> class_name (modeladmin w1) = class_name (modeladmin w2)
    \<longrightarrow> FlexBaseWidget_hashed_name h1 w1 = FlexBaseWidget_hashed_name h2 w2)
   \<and> (unique_name w = Some n \<longrightarrow> FlexBaseWidget_hashed_name h w = n)
   \<and> hashed_name (init_attributes h self bf ma req cf) =
       (case unique_name self of
          Some n \<Rightarrow> n
        | None \<Rightarrow> ''_'' @ sha1_hexdigest (SECRET_KEY h @ name bf @ class_name ma))"
  by (simp add: FlexBaseWidget_hashed_name_def salted_string_def py_join_def encode_utf8_def
        init_attributes_def Let_def split: option.splits)

text \<open>
  Two widgets of the example site built for different requests, and an override name.
\<close>

theorem hashed_name_function_of_triple_witness:
  "FlexBaseWidget_hashed_name example_host (example_widget (example_get ''/admin/cases/case/12/''))
     = FlexBaseWidget_hashed_name example_host (example_widget (example_post []))
   \<and> FlexBaseWidget_hashed_name example_host (example_class\<lparr>unique_name := Some ''contact_widget''\<rparr>)
     = ''contact_widget''"
  using hashed_name_function_of_triple
    [of "example_widget (example_get ''/admin/cases/case/12/'')" "example_widget (example_post [])"
        example_host example_host
        "example_class\<lparr>unique_name := Some ''contact_widget''\<rparr>" "''contact_widget''" example_host]
  by (simp add: example_widget_simps)

section \<open>The instance from a POST request\<close>

lemma collect_values_returns:
  "(\<forall>f\<in>set fs. \<forall>s e. items (name f) = Some s \<longrightarrow> to_python f s = Inl e \<longrightarrow> e = ValidationError)
   \<Longrightarrow> \<exists>vals. collect_values fs items acc = Inr vals"
  by (induction fs arbitrary: acc) (auto split: option.splits sum.splits)

lemma collect_values_lookup:
  "distinct (map name fs) \<Longrightarrow> collect_values fs items acc = Inr vals \<Longrightarrow>
   vals n =
     (case find (\<lambda>f. name f = n) fs of
        None \<Rightarrow> acc n
      | Some f \<Rightarrow>
          (case items n of
             None \<Rightarrow> acc n
           | Some s \<Rightarrow>
               (case to_python f s of
                  Inr v \<Rightarrow> if v \<noteq> PNone then Some v else acc n
                | Inl e \<Rightarrow> acc n)))"
proof (induction fs arbitrary: acc)
  case Nil
  then show ?case by simp
next
  case (Cons f fs)
  have nf: "find (\<lambda>g. name g = name f) fs = None"
    using Cons.prems(1) by (auto simp: find_None_iff image_iff)
  show ?case
    using Cons.prems Cons.IH nf
    by (auto split: option.splits sum.splits if_splits)
qed

lemma collect_values_not_None:
  "collect_values fs items acc = Inr vals \<Longrightarrow> (\<forall>n. acc n \<noteq> Some PNone) \<Longrightarrow> vals n \<noteq> Some PNone"
  by (induction fs arbitrary: acc) (auto split: option.splits sum.splits if_splits)

lemma find_name_distinct:
  "distinct (map name fs) \<Longrightarrow> f \<in> set fs \<Longrightarrow> find (\<lambda>g. name g = name f) fs = Some f"
  by (induction fs) (auto simp: image_iff)

lemma find_name_Some:
  "find (\<lambda>g. name g = n) fs = Some f \<Longrightarrow> f \<in> set fs \<and> name f = n"
  by (induction fs) (auto split: if_splits)

lemma collect_values_iff:
  assumes "distinct (map name fs)" and "collect_values fs items Map.empty = Inr vals"
  shows "vals n = Some v \<longleftrightarrow>
         (v \<noteq> PNone \<and> (\<exists>f\<in>set fs. \<exists>s. name f = n \<and> items n = Some s \<and> to_python f s = Inr v))"
proof
  assume "vals n = Some v"
  then show "v \<noteq> PNone \<and> (\<exists>f\<in>set fs. \<exists>s. name f = n \<and> items n = Some s \<and> to_python f s = Inr v)"
    using collect_values_lookup [OF assms, of n]
    by (auto split: option.splits sum.splits if_splits dest: find_name_Some)
next
  assume r: "v \<noteq> PNone \<and> (\<exists>f\<in>set fs. \<exists>s. name f = n \<and> items n = Some s \<and> to_python f s = Inr v)"
  then obtain f s where f: "f \<in> set fs" "name f = n" "items n = Some s" "to_python f s = Inr v"
    by blast
  have "find (\<lambda>g. name g = n) fs = Some f"
    using find_name_distinct [OF assms(1) f(1)] f(2) by simp
  then show "vals n = Some v"
    using collect_values_lookup [OF assms, of n] f r by simp
qed

text \<open>The fields and coercions of the example site.\<close>

lemma example_fields_distinct:
  "distinct (map name (meta_fields (model (base_field (example_widget req)))))"
  by (simp add: example_widget_simps example_base_field_def example_model_def example_fields_def)

lemma decimal_literal_examples:
  "decimal_literal ''7'' = Some 7" "decimal_literal ''many'' = None" "decimal_literal ''x'' = None"
  by (simp_all add: decimal_literal_def)

lemma example_request_values:
  "request_values (example_post [(''client'', ''7''), (''count'', '''')]) (example_widget r)
     = Inr [''client'' \<mapsto> PObj 7]"
  by (simp add: request_values_def example_widget_simps example_base_field_def example_model_def
        example_fields_def example_post_def py_dict_def related_to_python_def
        integer_to_python_def decimal_literal_examples)

lemma example_to_python_errors:
  "related_to_python s = Inl e \<Longrightarrow> e = ValidationError"
  "integer_to_python s = Inl e \<Longrightarrow> e = ValidationError"
  by (auto simp: related_to_python_def integer_to_python_def split: if_splits option.splits)

lemma collect_values_other_error:
  "(\<forall>g\<in>set pre. \<forall>s e. items (name g) = Some s \<longrightarrow> to_python g s = Inl e \<longrightarrow> e = ValidationError)
   \<Longrightarrow> items (name f) = Some s \<Longrightarrow> to_python f s = Inl e \<Longrightarrow> e \<noteq> ValidationError
   \<Longrightarrow> collect_values (pre @ f # post) items acc = Inl e"
  by (induction pre arbitrary: acc) (auto split: option.splits sum.splits)

lemma instance_from_request_only_ValidationError:
  assumes "distinct (map name (meta_fields (model (base_field w))))"
      and "\<forall>f\<in>set (meta_fields (model (base_field w))). \<forall>s e.
             py_dict (POST req) (name f) = Some s \<longrightarrow> to_python f s = Inl e \<longrightarrow> e = ValidationError"
  shows "\<exists>values.
           request_values req w = Inr values
         \<and> instance_from_request req w = Inr (construct (model (base_field w)) values)
         \<and> (\<forall>n v. values n = Some v \<longleftrightarrow>
               (v \<noteq> PNone
                \<and> (\<exists>f\<in>set (meta_fields (model (base_field w))). \<exists>s.
                      name f = n \<and> py_dict (POST req) n = Some s \<and> to_python f s = Inr v)))
         \<and> ((\<forall>f\<in>set (meta_fields (model (base_field w))). \<forall>s.
                 py_dict (POST req) (name f) = Some s \<longrightarrow> to_python f s = Inl ValidationError)
              \<longrightarrow> values = Map.empty)"
proof -
  let ?fs = "meta_fields (model (base_field w))"
  let ?items = "py_dict (POST req)"
  obtain vals where vals: "collect_values ?fs ?items Map.empty = Inr vals"
    using collect_values_returns [OF assms(2)] by blast
  have iff: "\<And>n v. vals n = Some v \<longleftrightarrow>
         (v \<noteq> PNone \<and> (\<exists>f\<in>set ?fs. \<exists>s. name f = n \<and> ?items n = Some s \<and> to_python f s = Inr v))"
    using collect_values_iff [OF assms(1) vals] by blast
  have empty: "vals = Map.empty"
    if "\<forall>f\<in>set ?fs. \<forall>s. ?items (name f) = Some s \<longrightarrow> to_python f s = Inl ValidationError"
  proof (rule ext)
    fix n
    show "vals n = None"
    proof (cases "vals n")
      case None
      then show ?thesis .
    next
      case (Some v)
      then show ?thesis using iff [of n v] that by fastforce
    qed
  qed
  show ?thesis
    using vals iff empty
    by (intro exI [of _ vals]) (simp add: request_values_def instance_from_request_def)
qed

lemma instance_from_request_other_error:
  assumes "meta_fields (model (base_field w)) = pre @ f # post"
      and "\<forall>g\<in>set pre. \<forall>s e.
             py_dict (POST req) (name g) = Some s \<longrightarrow> to_python g s = Inl e \<longrightarrow> e = ValidationError"
      and "py_dict (POST req) (name f) = Some s" and "to_python f s = Inl e"
      and "e \<noteq> ValidationError"
  shows "instance_from_request req w = Inl e"
  using collect_values_other_error [OF assms(2,3,4,5), of post Map.empty] assms(1)
  by (simp add: instance_from_request_def request_values_def)

text \<open>
  Claim C4, as amended. For a POST submission to a model whose field names are
  distinct, \<open>instance_from_request\<close> coerces each declared field that is submitted, in
  the order of declaration. When no coercion raises anything but \<open>ValidationError\<close>,
  it returns the instance built from exactly these values: a name has the value \<open>v\<close> if
  and only if \<open>v\<close> is not \<open>None\<close> and a declared field of that name, present in the
  submission, coerces its submitted text to \<open>v\<close>; so a field whose coercion raises
  \<open>ValidationError\<close> is left out, and so is one whose coercion returns \<open>None\<close>, and when
  every submitted value of a declared field is invalid no field is populated. When a
  coercion raises another exception, and none before it did, \<open>instance_from_request\<close>
  raises that exception.
\<close>

theorem instance_from_request_non_none_subset:
  assumes "distinct (map name (meta_fields (model (base_field w))))"
  shows "((\<forall>f\<in>set (meta_fields (model (base_field w))). \<forall>s e.
             py_dict (POST req) (name f) = Some s \<longrightarrow> to_python f s = Inl e \<longrightarrow> e = ValidationError)
          \<longrightarrow> (\<exists>values.
                 request_values req w = Inr values
               \<and> instance_from_request req w = Inr (construct (model (base_field w)) values)
               \<and> (\<forall>n v. values n = Some v \<longleftrightarrow>
                     (v \<noteq> PNone
                      \<and> (\<exists>f\<in>set (meta_fields (model (base_field w))). \<exists>s.
                            name f = n \<and> py_dict (POST req) n = Some s \<and> to_python f s = Inr v)))
               \<and> ((\<forall>f\<in>set (meta_fields (model (base_field w))). \<forall>s.
                       py_dict (POST req) (name f) = Some s \<longrightarrow> to_python f s = Inl ValidationError)
                    \<longrightarrow> values = Map.empty)))
       \<and> (\<forall>pre f post s e.
             meta_fields (model (base_field w)) = pre @ f # post
             \<and> (\<forall>g\<in>set pre. \<forall>s' e'.
                   py_dict (POST req) (name g) = Some s' \<longrightarrow> to_python g s' = Inl e'
                   \<longrightarrow> e' = ValidationError)
             \<and> py_dict (POST req) (name f) = Some s
             \<and> to_python f s = Inl e
             \<and> e \<noteq> ValidationError
           \<longrightarrow> instance_from_request req w = Inl e)"
proof (intro conjI impI allI)
  assume "\<forall>f\<in>set (meta_fields (model (base_field w))). \<forall>s e.
             py_dict (POST req) (name f) = Some s \<longrightarrow> to_python f s = Inl e \<longrightarrow> e = ValidationError"
  then show "\<exists>values.
                 request_values req w = Inr values
               \<and> instance_from_request req w = Inr (construct (model (base_field w)) values)
               \<and> (\<forall>n v. values n = Some v \<longleftrightarrow>
                     (v \<noteq> PNone
                      \<and> (\<exists>f\<in>set (meta_fields (model (base_field w))). \<exists>s.
                            name f = n \<and> py_dict (POST req) n = Some s \<and> to_python f s = Inr v)))
               \<and> ((\<forall>f\<in>set (meta_fields (model (base_field w))). \<forall>s.
                       py_dict (POST req) (name f) = Some s \<longrightarrow> to_python f s = Inl ValidationError)
                    \<longrightarrow> values = Map.empty)"
    by (rule instance_from_request_only_ValidationError [OF assms])
next
  fix pre f post s e
  assume "meta_fields (model (base_field w)) = pre @ f # post
             \<and> (\<forall>g\<in>set pre. \<forall>s' e'.
                   py_dict (POST req) (name g) = Some s' \<longrightarrow> to_python g s' = Inl e'
                   \<longrightarrow> e' = ValidationError)
             \<and> py_dict (POST req) (name f) = Some s
             \<and> to_python f s = Inl e
             \<and> e \<noteq> ValidationError"
  then show "instance_from_request req w = Inl e"
    using instance_from_request_other_error [of w pre f post req s e] by blast
qed

text \<open>
  On the example site: a valid client with an invalid count; a submission with
  nothing valid; and a submission that names the automatic \<open>id\<close>, whose coercion
  raises \<open>AttributeError\<close>.
\<close>

theorem instance_from_request_non_none_subset_witness:
  "instance_from_request (example_post [(''client'', ''7''), (''count'', ''many'')])
       (example_widget (example_post [(''client'', ''7''), (''count'', ''many'')]))
     = Inr (example_construct [''client'' \<mapsto> PObj 7])
   \<and> instance_from_request (example_post [(''client'', ''x''), (''count'', ''many'')])
       (example_widget (example_post [(''client'', ''x''), (''count'', ''many'')]))
     = Inr (example_construct Map.empty)
   \<and> instance_from_request (example_post [(''id'', ''5''), (''client'', ''7'')])
       (example_widget (example_post [(''id'', ''5''), (''client'', ''7'')]))
     = Inl AttributeError"
proof -
  let ?r1 = "example_post [(''client'', ''7''), (''count'', ''many'')]"
  let ?r2 = "example_post [(''client'', ''x''), (''count'', ''many'')]"
  let ?r3 = "example_post [(''id'', ''5''), (''client'', ''7'')]"
  have fs: "meta_fields (model (base_field (example_widget r))) = example_fields" for r
    by (simp add: example_widget_simps example_base_field_def example_model_def)
  have c: "construct (model (base_field (example_widget r))) = example_construct" for r
    by (simp add: example_widget_simps example_base_field_def example_model_def)
  have errs1: "\<forall>f\<in>set (meta_fields (model (base_field (example_widget ?r1)))). \<forall>s e.
             py_dict (POST ?r1) (name f) = Some s \<longrightarrow> to_python f s = Inl e \<longrightarrow> e = ValidationError"
    by (auto simp: fs example_fields_def example_post_def py_dict_def
          dest: example_to_python_errors)
  have errs2: "\<forall>f\<in>set (meta_fields (model (base_field (example_widget ?r2)))). \<forall>s e.
             py_dict (POST ?r2) (name f) = Some s \<longrightarrow> to_python f s = Inl e \<longrightarrow> e = ValidationError"
    by (auto simp: fs example_fields_def example_post_def py_dict_def
          dest: example_to_python_errors)
  have invalid: "\<forall>f\<in>set (meta_fields (model (base_field (example_widget ?r2)))). \<forall>s.
             py_dict (POST ?r2) (name f) = Some s \<longrightarrow> to_python f s = Inl ValidationError"
    by (simp add: fs example_fields_def example_post_def py_dict_def related_to_python_def
          integer_to_python_def decimal_literal_examples)
  have v1: "request_values ?r1 (example_widget ?r1) = Inr [''client'' \<mapsto> PObj 7]"
    by (simp add: request_values_def example_widget_simps example_base_field_def example_model_def
        example_fields_def example_post_def py_dict_def related_to_python_def
        integer_to_python_def decimal_literal_examples)
  from instance_from_request_non_none_subset
         [OF example_fields_distinct [of ?r1], of ?r1, THEN conjunct1, THEN mp, OF errs1]
  have a: "instance_from_request ?r1 (example_widget ?r1) = Inr (example_construct [''client'' \<mapsto> PObj 7])"
    using v1 by (auto simp: c)
  from instance_from_request_non_none_subset
         [OF example_fields_distinct [of ?r2], of ?r2, THEN conjunct1, THEN mp, OF errs2]
  have b: "instance_from_request ?r2 (example_widget ?r2) = Inr (example_construct Map.empty)"
    using invalid by (auto simp: c)
  have d: "instance_from_request ?r3 (example_widget ?r3) = Inl AttributeError"
    using instance_from_request_non_none_subset
            [OF example_fields_distinct [of ?r3], of ?r3, THEN conjunct2, rule_format,
             of "[]" "\<lparr>name = ''id'', to_python = auto_field_to_python\<rparr>" "tl example_fields"
                "''5''" AttributeError]
    by (simp add: fs example_fields_def example_post_def py_dict_def auto_field_to_python_def)
  show ?thesis using a b d by simp
qed

text \<open>
  Claim C4 as first stated fails for a value that is coerced to \<open>None\<close>. The empty
  text for \<open>count\<close> is coerced without error, so \<open>count\<close> is in the successfully
  coerced subset; the instance is nevertheless built without it, and has the default
  count 0 where \<open>Case(count=None)\<close> has \<open>None\<close>.
\<close>

theorem none_coerced_counterexample:
  "to_python (example_fields ! 3) '''' = Inr PNone
   \<and> name (example_fields ! 3) = ''count''
   \<and> instance_from_request (example_post [(''count'', '''')]) (example_widget (example_post [(''count'', '''')]))
       = Inr (example_construct Map.empty)
   \<and> instance_from_request (example_post [(''count'', '''')]) (example_widget (example_post [(''count'', '''')]))
       \<noteq> Inr (example_construct [''count'' \<mapsto> PNone])"
  by (simp add: instance_from_request_def request_values_def example_widget_simps
        example_base_field_def example_model_def example_fields_def example_post_def py_dict_def
        integer_to_python_def example_construct_def)

text \<open>
  Claim C9. Whenever \<open>instance_from_request\<close> collects the values of a submission
  (field names distinct), the instance is built from them, none of them is \<open>None\<close>, a
  submitted field whose coercion returns \<open>None\<close> has no value, and every value is the
  coerced text of a declared, submitted field.
\<close>

theorem instance_from_request_omits_None:
  assumes "distinct (map name (meta_fields (model (base_field w))))"
      and "request_values req w = Inr values"
  shows "instance_from_request req w = Inr (construct (model (base_field w)) values)
       \<and> (\<forall>n. values n \<noteq> Some PNone)
       \<and> (\<forall>f\<in>set (meta_fields (model (base_field w))). \<forall>s.
             py_dict (POST req) (name f) = Some s \<longrightarrow> to_python f s = Inr PNone
             \<longrightarrow> values (name f) = None)
       \<and> (\<forall>n v. values n = Some v \<longrightarrow>
             (\<exists>f\<in>set (meta_fields (model (base_field w))). \<exists>s.
                name f = n \<and> py_dict (POST req) n = Some s \<and> to_python f s = Inr v))"
proof -
  let ?fs = "meta_fields (model (base_field w))"
  let ?items = "py_dict (POST req)"
  have vals: "collect_values ?fs ?items Map.empty = Inr values"
    using assms(2) by (simp add: request_values_def)
  have a: "instance_from_request req w = Inr (construct (model (base_field w)) values)"
    using assms(2) by (simp add: instance_from_request_def)
  have b: "\<forall>n. values n \<noteq> Some PNone"
    using collect_values_not_None [OF vals] by simp
  have c: "values (name f) = None"
    if "f \<in> set ?fs" "?items (name f) = Some s" "to_python f s = Inr PNone" for f s
    using collect_values_lookup [OF assms(1) vals, of "name f"]
      find_name_distinct [OF assms(1) that(1)] that by simp
  have d: "\<exists>f\<in>set ?fs. \<exists>s. name f = n \<and> ?items n = Some s \<and> to_python f s = Inr v"
    if "values n = Some v" for n v
    using collect_values_iff [OF assms(1) vals, of n v] that by blast
  show ?thesis using a b c d by blast
qed

text \<open>A client together with an empty count: the count is left out.\<close>

theorem instance_from_request_omits_None_witness:
  "request_values (example_post [(''client'', ''7''), (''count'', '''')])
       (example_widget (example_post [(''client'', ''7''), (''count'', '''')]))
     = Inr [''client'' \<mapsto> PObj 7]
   \<and> instance_from_request (example_post [(''client'', ''7''), (''count'', '''')])
       (example_widget (example_post [(''client'', ''7''), (''count'', '''')]))
     = Inr (example_construct [''client'' \<mapsto> PObj 7])
   \<and> [''client'' \<mapsto> PObj 7] ''count'' = None"
  using instance_from_request_omits_None
    [OF example_fields_distinct example_request_values,
     of "example_post [(''client'', ''7''), (''count'', '''')]"]
  by (simp add: example_request_values example_widget_simps example_base_field_def example_model_def)

section \<open>The instance named by the path\<close>

lemma py_split_not_Nil: "py_split c s \<noteq> []"
  by (induction s) (auto split: list.splits)

lemma py_split_no_separator: "c \<notin> set s \<Longrightarrow> py_split c s = [s]"
  by (induction s) auto

lemma py_split_append:
  "py_split c (a @ c # b) = py_split c a @ py_split c b"
  by (induction a) (auto split: list.splits simp: py_split_not_Nil)

lemma last_py_split:
  "last (py_split c s) = rev (takeWhile (\<lambda>x. x \<noteq> c) (rev s))"
proof (cases "c \<in> set s")
  case False
  then have tw: "takeWhile (\<lambda>x. x \<noteq> c) (rev s) = rev s"
    by (simp add: takeWhile_eq_all_conv) blast
  show ?thesis unfolding tw using False by (simp add: py_split_no_separator)
next
  case True
  then obtain a b where s: "s = a @ c # b" and b: "c \<notin> set b"
    using split_list_last [of c s] by blast
  have "takeWhile (\<lambda>x. x \<noteq> c) (rev b @ c # rev a) = rev b"
    using b by (auto simp: takeWhile_tail)
  then show ?thesis
    using b by (simp add: s py_split_append py_split_no_separator)
qed

lemma takeWhile_append_stop:
  "(\<forall>x\<in>set t. \<not> P x) \<Longrightarrow> takeWhile P (d @ t) = takeWhile P d"
  by (induction d) (auto simp: takeWhile_eq_Nil_iff)

lemma takeWhile_dropWhile_tail:
  "(\<forall>x\<in>set t. Q x) \<Longrightarrow>
   takeWhile (\<lambda>x. \<not> Q x) (dropWhile Q (r @ t)) = takeWhile (\<lambda>x. \<not> Q x) (dropWhile Q r)"
proof (induction r)
  case Nil
  then have dw: "dropWhile Q t = []" by (simp add: dropWhile_eq_Nil_conv)
  show ?case unfolding append_Nil dw by simp
next
  case (Cons x r)
  show ?case
  proof (cases "Q x")
    case True
    then show ?thesis using Cons by simp
  next
    case False
    have "takeWhile (\<lambda>x. \<not> Q x) ((x # r) @ t) = takeWhile (\<lambda>x. \<not> Q x) (x # r)"
      using Cons.prems by (intro takeWhile_append_stop) simp
    then show ?thesis using False by simp
  qed
qed

text \<open>
  \<open>path.strip('/').split('/').pop()\<close> is the trailing segment of the path.
\<close>

lemma segment_of_path:
  "last (py_split CHR ''/'' (py_strip CHR ''/'' path)) = trailing_segment path"
proof -
  let ?Q = "\<lambda>x. x = CHR ''/''"
  have p: "rev path = rev (dropWhile ?Q path) @ rev (takeWhile ?Q path)"
    by (metis rev_append takeWhile_dropWhile_id)
  have t: "\<forall>x\<in>set (rev (takeWhile ?Q path)). ?Q x"
    by (auto dest: set_takeWhileD)
  have "takeWhile (\<lambda>x. \<not> ?Q x) (dropWhile ?Q (rev path))
      = takeWhile (\<lambda>x. \<not> ?Q x) (dropWhile ?Q (rev (dropWhile ?Q path)))"
    using takeWhile_dropWhile_tail [of "rev (takeWhile ?Q path)" ?Q "rev (dropWhile ?Q path)", OF t]
    by (simp add: p [symmetric])
  then show ?thesis
    by (simp add: last_py_split py_strip_def trailing_segment_def)
qed

text \<open>
  Claim C5. For a request that is not a POST, with the path \<open>path_info\<close>: when the
  trailing segment of the path is not an integer, \<open>_get_instance\<close> returns \<open>None\<close>; when
  it is the integer \<open>object_id\<close>, the result is that of
  \<open>modeladmin.get_object(request, object_id)\<close>, a \<open>ValueError\<close> raised there being
  turned into \<open>None\<close> by the same \<open>except\<close> clause.
\<close>

theorem get_instance_by_trailing_segment:
  assumes "http_method (request self) \<noteq> ''POST''"
      and "META (request self) ''PATH_INFO'' = Some path_info"
  shows "(py_int h (trailing_segment path_info) = None
            \<longrightarrow> FlexBaseWidget_get_instance h self = Inr None)
       \<and> (\<forall>object_id. py_int h (trailing_segment path_info) = Some object_id \<longrightarrow>
             FlexBaseWidget_get_instance h self
               = except_ValueError (get_object (modeladmin self) (request self) object_id)
           \<and> (\<forall>r. get_object (modeladmin self) (request self) object_id = Inr r
                 \<longrightarrow> FlexBaseWidget_get_instance h self = Inr r))"
  using assms
  by (simp add: FlexBaseWidget_get_instance_def py_pop_def py_split_not_Nil segment_of_path
        except_ValueError_def)

text \<open>The add page and the change page of case 12.\<close>

theorem get_instance_by_trailing_segment_witness:
  "FlexBaseWidget_get_instance example_host (example_widget (example_get ''/admin/cases/case/add/''))
     = Inr None
   \<and> FlexBaseWidget_get_instance example_host (example_widget (example_get ''/admin/cases/case/12/''))
     = Inr (Some example_case)"
proof -
  have s1: "trailing_segment ''/admin/cases/case/add/'' = ''add''"
    by (simp add: trailing_segment_def)
  have s2: "trailing_segment ''/admin/cases/case/12/'' = ''12''"
    by (simp add: trailing_segment_def)
  have d1: "decimal_literal ''add'' = None" by (simp add: decimal_literal_def)
  have d2: "decimal_literal ''12'' = Some 12" by (simp add: decimal_literal_def)
  show ?thesis
    using get_instance_by_trailing_segment
            [of "example_widget (example_get ''/admin/cases/case/add/'')"
                "''/admin/cases/case/add/''" example_host]
          get_instance_by_trailing_segment
            [of "example_widget (example_get ''/admin/cases/case/12/'')"
                "''/admin/cases/case/12/''" example_host]
    by (simp add: example_widget_simps example_get_def example_host_def example_admin_def
          except_ValueError_def s1 s2 d1 d2)
qed

section \<open>Identifiers of different triples\<close>

lemma salted_string_append:
  "salted_string h w = SECRET_KEY h @ name (base_field w) @ class_name (modeladmin w)"
  by (simp add: salted_string_def py_join_def encode_utf8_def)

text \<open>
  When exactly one of secret, field name and admin class name differs, the strings
  that are hashed differ.
\<close>

lemma salted_string_differs_in_one_component:
  assumes "(SECRET_KEY h1 \<noteq> SECRET_KEY h2
              \<and> name (base_field w1) = name (base_field w2)
              \<and> class_name (modeladmin w1) = class_name (modeladmin w2))
         \<or> (SECRET_KEY h1 = SECRET_KEY h2
              \<and> name (base_field w1) \<noteq> name (base_field w2)
              \<and> class_name (modeladmin w1) = class_name (modeladmin w2))
         \<or> (SECRET_KEY h1 = SECRET_KEY h2
              \<and> name (base_field w1) = name (base_field w2)
              \<and> class_name (modeladmin w1) \<noteq> class_name (modeladmin w2))"
  shows "salted_string h1 w1 \<noteq> salted_string h2 w2"
  using assms by (auto simp: salted_string_append)

text \<open>
  Claim C7 does not hold of the code. \<open>''.join\<close> puts nothing between the three parts,
  so the hashed string does not tell where the field name ends and the class name
  begins: on one site, for every text \<open>s\<close>, a widget on the field \<open>n\<close> of an admin class
  \<open>s + c\<close> and a widget on the field \<open>n + s\<close> of an admin class \<open>c\<close>, neither with an
  override name, have the same identifier, and when \<open>s\<close> is not empty they differ in
  field name and in admin class name.
\<close>

theorem hashed_name_same_for_moved_boundary:
  assumes "unique_name w1 = None" and "unique_name w2 = None"
      and "SECRET_KEY h1 = SECRET_KEY h2"
      and "name (base_field w2) = name (base_field w1) @ s"
      and "class_name (modeladmin w1) = s @ class_name (modeladmin w2)"
  shows "FlexBaseWidget_hashed_name h1 w1 = FlexBaseWidget_hashed_name h2 w2
       \<and> (s \<noteq> [] \<longrightarrow> name (base_field w1) \<noteq> name (base_field w2)
                    \<and> class_name (modeladmin w1) \<noteq> class_name (modeladmin w2))"
  using assms by (simp add: FlexBaseWidget_hashed_name_def salted_string_append)

text \<open>
  The field \<open>contact\<close> of an admin class \<open>sAdmin\<close> and the field \<open>contacts\<close> of an admin
  class \<open>Admin\<close>, on the example site.
\<close>

theorem hashed_name_same_for_moved_boundary_witness:
  "unique_name (example_class\<lparr>base_field := example_base_field\<lparr>name := ''contact''\<rparr>,
                              modeladmin := example_admin\<lparr>class_name := ''sAdmin''\<rparr>\<rparr>) = None
   \<and> unique_name (example_class\<lparr>base_field := example_base_field\<lparr>name := ''contacts''\<rparr>,
                              modeladmin := example_admin\<lparr>class_name := ''Admin''\<rparr>\<rparr>) = None
   \<and> name (base_field (example_class\<lparr>base_field := example_base_field\<lparr>name := ''contact''\<rparr>,
                              modeladmin := example_admin\<lparr>class_name := ''sAdmin''\<rparr>\<rparr>))
     \<noteq> name (base_field (example_class\<lparr>base_field := example_base_field\<lparr>name := ''contacts''\<rparr>,
                              modeladmin := example_admin\<lparr>class_name := ''Admin''\<rparr>\<rparr>))
   \<and> class_name (modeladmin (example_class\<lparr>base_field := example_base_field\<lparr>name := ''contact''\<rparr>,
                              modeladmin := example_admin\<lparr>class_name := ''sAdmin''\<rparr>\<rparr>))
     \<noteq> class_name (modeladmin (example_class\<lparr>base_field := example_base_field\<lparr>name := ''contacts''\<rparr>,
                              modeladmin := example_admin\<lparr>class_name := ''Admin''\<rparr>\<rparr>))
   \<and> FlexBaseWidget_hashed_name example_host
        (example_class\<lparr>base_field := example_base_field\<lparr>name := ''contact''\<rparr>,
                       modeladmin := example_admin\<lparr>class_name := ''sAdmin''\<rparr>\<rparr>)
     = FlexBaseWidget_hashed_name example_host
        (example_class\<lparr>base_field := example_base_field\<lparr>name := ''contacts''\<rparr>,
                       modeladmin := example_admin\<lparr>class_name := ''Admin''\<rparr>\<rparr>)"
  using hashed_name_same_for_moved_boundary
    [of "example_class\<lparr>base_field := example_base_field\<lparr>name := ''contact''\<rparr>,
                        modeladmin := example_admin\<lparr>class_name := ''sAdmin''\<rparr>\<rparr>"
        "example_class\<lparr>base_field := example_base_field\<lparr>name := ''contacts''\<rparr>,
                        modeladmin := example_admin\<lparr>class_name := ''Admin''\<rparr>\<rparr>"
        example_host example_host "''s''"]
  by (simp add: example_class_def)

section \<open>The registry\<close>

lemma class_instances_module:
  "class_instances w FlexBaseWidget = Inr (instances w)"
  "class_instances w FlexSelectWidget = Inr (instances w)"
  "class_instances w FlexSelectMultipleWidget = Inr (instances w)"
  by (simp_all add: class_instances_def class_attribute_owner_def)

lemma FlexBaseWidget_init_result:
  "FlexBaseWidget_init h w self bf ma req cf =
     Inr (next_address w,
          w\<lparr>heap := (heap w)(next_address w \<mapsto> (init_attributes h self bf ma req cf)\<lparr>choices := []\<rparr>),
            next_address := Suc (next_address w),
            instances := (instances w)(hashed_name (init_attributes h self bf ma req cf) \<mapsto> next_address w)\<rparr>)"
  by (simp add: FlexBaseWidget_init_def class_instances_module Let_def)

lemma new_widget_module:
  "widget_class self \<in> {FlexBaseWidget, FlexSelectWidget, FlexSelectMultipleWidget} \<Longrightarrow>
   new_widget h w self bf ma req cf = FlexBaseWidget_init h w self bf ma req cf"
  by (auto simp: new_widget_def class_attribute_owner_def FlexSelectMultipleWidget_init_def)

text \<open>
  A construction either runs \<open>FlexBaseWidget.__init__\<close> or fails; rendering leaves the
  registry as it is.
\<close>

lemma new_widget_cases:
  "new_widget h w self bf ma req cf = FlexBaseWidget_init h w self bf ma req cf
   \<or> new_widget h w self bf ma req cf = Inl TypeError"
  by (cases "widget_class self")
     (simp_all add: new_widget_def class_attribute_owner_def FlexSelectMultipleWidget_init_def)

lemma step_instances_other:
  "identifier_of h op \<noteq> Some k \<Longrightarrow> instances (step h w op) k = instances w k"
proof (cases op)
  case (New self bf ma req cf)
  assume "identifier_of h op \<noteq> Some k"
  then show ?thesis
    using new_widget_cases [of h w self bf ma req cf] New
    by (auto simp: FlexBaseWidget_init_result)
next
  case (Render address nm val html_attrs)
  then show ?thesis by (simp split: option.splits)
qed

lemma run_instances_other:
  "list_all (\<lambda>op. identifier_of h op \<noteq> Some k) ops \<Longrightarrow> instances (run h w ops) k = instances w k"
  by (induction ops arbitrary: w) (simp_all add: step_instances_other)

lemma step_instances_kept:
  "instances w k \<noteq> None \<Longrightarrow> instances (step h w op) k \<noteq> None"
proof (cases op)
  case (New self bf ma req cf)
  assume "instances w k \<noteq> None"
  then show ?thesis
    using new_widget_cases [of h w self bf ma req cf] New
    by (auto simp: FlexBaseWidget_init_result)
next
  case (Render address nm val html_attrs)
  assume "instances w k \<noteq> None"
  then show ?thesis using Render by (simp split: option.splits)
qed

lemma run_instances_kept:
  "instances w k \<noteq> None \<Longrightarrow> instances (run h w ops) k \<noteq> None"
proof (induction ops arbitrary: w)
  case Nil
  then show ?case by simp
next
  case (Cons op ops)
  have "instances (step h w op) k \<noteq> None"
    using Cons.prems by (rule step_instances_kept)
  then have "instances (run h (step h w op) ops) k \<noteq> None"
    by (rule Cons.IH)
  then show ?case by simp
qed

lemma init_attributes_class:
  "widget_class (init_attributes h self bf ma req cf) = widget_class self"
  by (simp add: init_attributes_def Let_def)

text \<open>
  \<open>render\<close> changes nothing of the widget but \<open>self.choices\<close>, and an address that is
  in use is never given to a later widget: the object at the address stays the same
  but for its choices.
\<close>

lemma render_keeps_attributes:
  "\<exists>cs. snd (FlexBaseWidget_render h (x\<lparr>choices := cs0\<rparr>) nm v a) = x\<lparr>choices := cs\<rparr>"
  by (auto simp: FlexBaseWidget_render_def split: sum.splits option.splits)

lemma step_heap_kept:
  assumes "a < next_address w" and "heap w a = Some (x\<lparr>choices := cs\<rparr>)"
  shows "a < next_address (step h w op) \<and> (\<exists>cs'. heap (step h w op) a = Some (x\<lparr>choices := cs'\<rparr>))"
proof (cases op)
  case (New self bf ma req cf)
  then show ?thesis
    using assms new_widget_cases [of h w self bf ma req cf]
    by (auto simp: FlexBaseWidget_init_result)
next
  case (Render address nm val html_attrs)
  show ?thesis
  proof (cases "address = a")
    case True
    then show ?thesis
      using assms Render render_keeps_attributes [where h = h and x = x and ?cs0.0 = cs and nm = nm
          and v = val and a = html_attrs]
      by auto
  next
    case False
    then show ?thesis
      using assms Render by (auto split: option.splits)
  qed
qed

lemma run_heap_kept:
  "a < next_address w \<Longrightarrow> heap w a = Some (x\<lparr>choices := cs\<rparr>) \<Longrightarrow>
   \<exists>cs'. heap (run h w ops) a = Some (x\<lparr>choices := cs'\<rparr>)"
proof (induction ops arbitrary: w cs)
  case Nil
  then show ?case by auto
next
  case (Cons op ops)
  from step_heap_kept [OF Cons.prems, of h op]
  obtain cs' where "a < next_address (step h w op)"
      and "heap (step h w op) a = Some (x\<lparr>choices := cs'\<rparr>)"
    by blast
  then show ?case
    using Cons.IH [of "step h w op" cs'] by simp
qed

text \<open>
  Claim C8. Constructing a widget of a class of the module succeeds: the new object
  gets an address of its own and the attributes that \<open>__init__\<close> sets, and the registry
  maps the value of \<open>_hashed_name()\<close> on it, its identifier, to it, whatever it mapped
  the identifier to before; every other identifier is mapped as before. Whatever is
  constructed or rendered afterwards, the object at that address stays this widget
  (only \<open>choices\<close> changes), and the registry maps the identifier to it until a widget
  with the same identifier is constructed. No run of operations removes an identifier
  from the registry.
\<close>

theorem construction_registers_last_write_wins:
  assumes "widget_class self \<in> {FlexBaseWidget, FlexSelectWidget, FlexSelectMultipleWidget}"
      and "ident = FlexBaseWidget_hashed_name h
                     (self\<lparr>choice_function := cf, base_field := bf, modeladmin := ma, request := req\<rparr>)"
      and "stored = self\<lparr>choice_function := cf, base_field := bf, modeladmin := ma, request := req,
                         hashed_name := ident\<rparr>"
  shows "\<exists>w'. new_widget h w self bf ma req cf = Inr (next_address w, w')
           \<and> next_address w' = Suc (next_address w)
           \<and> ident = (case unique_name self of
                        Some n \<Rightarrow> n
                      | None \<Rightarrow> ''_'' @ sha1_hexdigest (SECRET_KEY h @ name bf @ class_name ma))
           \<and> heap w' (next_address w) = Some (stored\<lparr>choices := []\<rparr>)
           \<and> (\<forall>a. a \<noteq> next_address w \<longrightarrow> heap w' a = heap w a)
           \<and> instances w' ident = Some (next_address w)
           \<and> (\<forall>k. k \<noteq> ident \<longrightarrow> instances w' k = instances w k)
           \<and> (\<forall>ops. \<exists>cs. heap (run h w' ops) (next_address w) = Some (stored\<lparr>choices := cs\<rparr>))
           \<and> (\<forall>ops. list_all (\<lambda>op. identifier_of h op \<noteq> Some ident) ops
                  \<longrightarrow> instances (run h w' ops) ident = Some (next_address w))
           \<and> (\<forall>ops k. instances w k \<noteq> None \<longrightarrow> instances (run h w ops) k \<noteq> None)"
proof -
  have s: "init_attributes h self bf ma req cf = stored"
    by (simp add: init_attributes_def Let_def assms(2,3))
  have i: "hashed_name stored = ident"
    by (simp add: assms(3))
  let ?w' = "w\<lparr>heap := (heap w)(next_address w \<mapsto> stored\<lparr>choices := []\<rparr>),
            next_address := Suc (next_address w),
            instances := (instances w)(ident \<mapsto> next_address w)\<rparr>"
  have n: "new_widget h w self bf ma req cf = Inr (next_address w, ?w')"
    using assms(1) by (simp only: new_widget_module FlexBaseWidget_init_result s i)
  have k: "ident = (case unique_name self of
                        Some n \<Rightarrow> n
                      | None \<Rightarrow> ''_'' @ sha1_hexdigest (SECRET_KEY h @ name bf @ class_name ma))"
    by (simp add: assms(2) FlexBaseWidget_hashed_name_def salted_string_append split: option.splits)
  have a: "heap ?w' (next_address w) = Some (stored\<lparr>choices := []\<rparr>)"
    by simp
  have a': "\<forall>a. a \<noteq> next_address w \<longrightarrow> heap ?w' a = heap w a" by simp
  have b: "instances ?w' ident = Some (next_address w)" by simp
  have c: "\<forall>k. k \<noteq> ident \<longrightarrow> instances ?w' k = instances w k" by simp
  have h: "\<forall>ops. \<exists>cs. heap (run h ?w' ops) (next_address w) = Some (stored\<lparr>choices := cs\<rparr>)"
  proof
    fix ops
    have "next_address w < next_address ?w'" by simp
    then show "\<exists>cs. heap (run h ?w' ops) (next_address w) = Some (stored\<lparr>choices := cs\<rparr>)"
      using a by (rule run_heap_kept)
  qed
  have d: "\<forall>ops. list_all (\<lambda>op. identifier_of h op \<noteq> Some ident) ops
                  \<longrightarrow> instances (run h ?w' ops) ident = Some (next_address w)"
    using b by (simp add: run_instances_other)
  have e: "\<forall>ops k. instances w k \<noteq> None \<longrightarrow> instances (run h w ops) k \<noteq> None"
    using run_instances_kept by blast
  have m: "next_address ?w' = Suc (next_address w)" by simp
  show ?thesis
    using n m k a a' b c h d e by (intro exI [of _ ?w']) (intro conjI)
qed

text \<open>
  The first widget of a process, constructed, then a widget of another name
  constructed and the first one rendered: the registry still leads to the first.
\<close>

theorem construction_registers_last_write_wins_witness:
  "new_widget example_host empty_world example_class example_base_field example_admin
       (example_get ''/admin/cases/case/12/'') None
     = Inr (0, step example_host empty_world
                 (New example_class example_base_field example_admin
                    (example_get ''/admin/cases/case/12/'') None))
   \<and> instances
       (run example_host empty_world
          [New example_class example_base_field example_admin
             (example_get ''/admin/cases/case/12/'') None,
           New (example_class\<lparr>unique_name := Some ''contacts''\<rparr>) example_base_field example_admin
             (example_get ''/admin/cases/case/12/'') None,
           Render 0 ''contact'' PNone None])
       (''_'' @ sha1_hexdigest ''not-so-secretcontactCaseAdmin'') = Some 0
   \<and> map_option hashed_name
       (heap
          (run example_host empty_world
             [New example_class example_base_field example_admin
                (example_get ''/admin/cases/case/12/'') None,
              New (example_class\<lparr>unique_name := Some ''contacts''\<rparr>) example_base_field example_admin
                (example_get ''/admin/cases/case/12/'') None,
              Render 0 ''contact'' PNone None]) 0)
     = Some (''_'' @ sha1_hexdigest ''not-so-secretcontactCaseAdmin'')"
proof -
  let ?req = "example_get ''/admin/cases/case/12/''"
  let ?ident = "''_'' @ sha1_hexdigest ''not-so-secretcontactCaseAdmin''"
  let ?stored = "example_class\<lparr>choice_function := None, base_field := example_base_field,
                    modeladmin := example_admin, request := ?req, hashed_name := ?ident\<rparr>"
  let ?ops = "[New (example_class\<lparr>unique_name := Some ''contacts''\<rparr>) example_base_field example_admin
                 ?req None,
               Render 0 ''contact'' PNone None]"
  have k: "widget_class example_class \<in> {FlexBaseWidget, FlexSelectWidget, FlexSelectMultipleWidget}"
    by (simp add: example_class_def)
  have i: "?ident = FlexBaseWidget_hashed_name example_host
                     (example_class\<lparr>choice_function := None, base_field := example_base_field,
                         modeladmin := example_admin, request := ?req\<rparr>)"
    by (simp add: FlexBaseWidget_hashed_name_def salted_string_append example_class_def
          example_host_def example_base_field_def example_admin_def)
  have o: "list_all (\<lambda>op. identifier_of example_host op \<noteq> Some ?ident) ?ops"
    by (simp add: init_attributes_def Let_def FlexBaseWidget_hashed_name_def)
  from construction_registers_last_write_wins
         [OF k i refl, of empty_world]
  obtain w' where
      n: "new_widget example_host empty_world example_class example_base_field example_admin ?req None
            = Inr (next_address empty_world, w')"
    and hp: "\<forall>ops. \<exists>cs. heap (run example_host w' ops) (next_address empty_world)
                          = Some (?stored\<lparr>choices := cs\<rparr>)"
    and r: "\<forall>ops. list_all (\<lambda>op. identifier_of example_host op \<noteq> Some ?ident) ops
              \<longrightarrow> instances (run example_host w' ops) ?ident = Some (next_address empty_world)"
    by blast
  have r': "instances (run example_host w' ?ops) ?ident = Some (next_address empty_world)"
    using r [rule_format, OF o] .
  obtain cs where hp': "heap (run example_host w' ?ops) (next_address empty_world)
                          = Some (?stored\<lparr>choices := cs\<rparr>)"
    using hp [rule_format, of ?ops] by blast
  have z: "next_address empty_world = 0" by (simp add: empty_world_def)
  have st: "step example_host empty_world
              (New example_class example_base_field example_admin ?req None) = w'"
    using n by simp
  show ?thesis
    using n r' hp' by (simp only: run.simps st z) simp
qed

text \<open>
  Claim C10. \<open>FlexBaseWidget.instances\<close>, \<open>FlexSelectWidget.instances\<close> and
  \<open>FlexSelectMultipleWidget.instances\<close> are one mapping. After two widgets with
  different identifiers have been constructed, each of either class, that mapping
  finds both, each of its own class.
\<close>

theorem both_classes_share_one_registry:
  assumes "widget_class s1 \<in> {FlexSelectWidget, FlexSelectMultipleWidget}"
      and "widget_class s2 \<in> {FlexSelectWidget, FlexSelectMultipleWidget}"
      and "hashed_name (init_attributes h s1 bf1 ma1 req1 cf1)
             \<noteq> hashed_name (init_attributes h s2 bf2 ma2 req2 cf2)"
  shows "\<exists>registry.
           class_instances (run h w [New s1 bf1 ma1 req1 cf1, New s2 bf2 ma2 req2 cf2]) FlexBaseWidget
             = Inr registry
         \<and> class_instances (run h w [New s1 bf1 ma1 req1 cf1, New s2 bf2 ma2 req2 cf2]) FlexSelectWidget
             = Inr registry
         \<and> class_instances (run h w [New s1 bf1 ma1 req1 cf1, New s2 bf2 ma2 req2 cf2])
               FlexSelectMultipleWidget
             = Inr registry
         \<and> registry (hashed_name (init_attributes h s1 bf1 ma1 req1 cf1)) = Some (next_address w)
         \<and> registry (hashed_name (init_attributes h s2 bf2 ma2 req2 cf2)) = Some (Suc (next_address w))
         \<and> map_option widget_class
               (heap (run h w [New s1 bf1 ma1 req1 cf1, New s2 bf2 ma2 req2 cf2]) (next_address w))
             = Some (widget_class s1)
         \<and> map_option widget_class
               (heap (run h w [New s1 bf1 ma1 req1 cf1, New s2 bf2 ma2 req2 cf2]) (Suc (next_address w)))
             = Some (widget_class s2)"
proof -
  let ?w = "run h w [New s1 bf1 ma1 req1 cf1, New s2 bf2 ma2 req2 cf2]"
  have m1: "widget_class s1 \<in> {FlexBaseWidget, FlexSelectWidget, FlexSelectMultipleWidget}"
    using assms(1) by auto
  have m2: "widget_class s2 \<in> {FlexBaseWidget, FlexSelectWidget, FlexSelectMultipleWidget}"
    using assms(2) by auto
  have n1: "new_widget h w' s1 bf ma req cf = FlexBaseWidget_init h w' s1 bf ma req cf"
    for w' bf ma req cf
    using m1 by (rule new_widget_module)
  have n2: "new_widget h w' s2 bf ma req cf = FlexBaseWidget_init h w' s2 bf ma req cf"
    for w' bf ma req cf
    using m2 by (rule new_widget_module)
  have a: "instances ?w (hashed_name (init_attributes h s1 bf1 ma1 req1 cf1)) = Some (next_address w)"
    using assms(3) by (simp add: n1 n2 FlexBaseWidget_init_result)
  have b: "instances ?w (hashed_name (init_attributes h s2 bf2 ma2 req2 cf2)) = Some (Suc (next_address w))"
    by (simp add: n1 n2 FlexBaseWidget_init_result)
  have c: "map_option widget_class (heap ?w (next_address w)) = Some (widget_class s1)"
    by (simp add: n1 n2 FlexBaseWidget_init_result init_attributes_class)
  have d: "map_option widget_class (heap ?w (Suc (next_address w))) = Some (widget_class s2)"
    by (simp add: n1 n2 FlexBaseWidget_init_result init_attributes_class)
  show ?thesis
    using a b c d
    by (intro exI [of _ "instances ?w"]) (simp only: class_instances_module simp_thms)
qed

text \<open>
  A \<open>FlexSelectWidget\<close> and a \<open>FlexSelectMultipleWidget\<close> named \<open>contacts\<close>, constructed
  one after the other.
\<close>

theorem both_classes_share_one_registry_witness:
  "instances
     (run example_host empty_world
        [New example_class example_base_field example_admin (example_get ''/admin/cases/case/12/'') None,
         New (example_class\<lparr>widget_class := FlexSelectMultipleWidget, unique_name := Some ''contacts''\<rparr>)
           example_base_field example_admin (example_get ''/admin/cases/case/12/'') None])
     (hashed_name (example_widget (example_get ''/admin/cases/case/12/''))) = Some 0
   \<and> instances
     (run example_host empty_world
        [New example_class example_base_field example_admin (example_get ''/admin/cases/case/12/'') None,
         New (example_class\<lparr>widget_class := FlexSelectMultipleWidget, unique_name := Some ''contacts''\<rparr>)
           example_base_field example_admin (example_get ''/admin/cases/case/12/'') None])
     ''contacts'' = Some 1"
proof -
  let ?req = "example_get ''/admin/cases/case/12/''"
  let ?s2 = "example_class\<lparr>widget_class := FlexSelectMultipleWidget, unique_name := Some ''contacts''\<rparr>"
  let ?w = "run example_host empty_world
        [New example_class example_base_field example_admin ?req None,
         New ?s2 example_base_field example_admin ?req None]"
  have k1: "widget_class example_class \<in> {FlexSelectWidget, FlexSelectMultipleWidget}"
    by (simp add: example_class_def)
  have k2: "widget_class ?s2 \<in> {FlexSelectWidget, FlexSelectMultipleWidget}"
    by simp
  have i2: "hashed_name (init_attributes example_host ?s2 example_base_field example_admin ?req None)
              = ''contacts''"
    by (simp add: init_attributes_def Let_def FlexBaseWidget_hashed_name_def)
  have i1: "hashed_name (init_attributes example_host example_class example_base_field example_admin ?req None)
              = ''_'' @ sha1_hexdigest (salted_string example_host (example_widget ?req))"
    by (simp add: example_widget_def init_attributes_def Let_def FlexBaseWidget_hashed_name_def
          example_class_def salted_string_append)
  have ne: "hashed_name (init_attributes example_host example_class example_base_field example_admin ?req None)
              \<noteq> hashed_name (init_attributes example_host ?s2 example_base_field example_admin ?req None)"
    by (simp only: i1 i2) simp
  from both_classes_share_one_registry [OF k1 k2 ne, of empty_world]
  obtain registry where
        "class_instances ?w FlexBaseWidget = Inr registry"
    and "registry (hashed_name (init_attributes example_host example_class example_base_field
                      example_admin ?req None)) = Some (next_address empty_world)"
    and "registry (hashed_name (init_attributes example_host ?s2 example_base_field
                      example_admin ?req None)) = Some (Suc (next_address empty_world))"
    by blast
  then show ?thesis
    by (simp only: class_instances_module i2 example_widget_def) (simp add: empty_world_def)
qed

end
